theory Spec2Isabelle
  imports Complex_Main
begin

section \<open>Scalars\<close>

text \<open>
  The notebook computes on 32-bit floating-point tensors. The embedding idealises the
  finite floating-point values as real numbers (rounding is not modelled) and keeps one
  extra value, \<open>NonFinite\<close>, for a result that is not a real number: the infinity or NaN
  that the tensor runtime produces, without raising, for a division by zero, a logarithm
  of a non-positive number or a square root of a negative number. Every operation is
  strict in \<open>NonFinite\<close>. The operations \<open>s_add\<close>, \<open>s_mul\<close>, ... are exact on the reals;
  overflow is the separate step \<open>range32\<close> below.
\<close>

datatype scalar = Finite real | NonFinite

fun s_lift1 :: "(real \<Rightarrow> real) \<Rightarrow> scalar \<Rightarrow> scalar" where
  "s_lift1 f (Finite x) = Finite (f x)"
| "s_lift1 f NonFinite = NonFinite"

fun s_lift2 :: "(real \<Rightarrow> real \<Rightarrow> real) \<Rightarrow> scalar \<Rightarrow> scalar \<Rightarrow> scalar" where
  "s_lift2 f (Finite x) (Finite y) = Finite (f x y)"
| "s_lift2 f _ _ = NonFinite"

definition s_add :: "scalar \<Rightarrow> scalar \<Rightarrow> scalar" where
  "s_add = s_lift2 (+)"

definition s_sub :: "scalar \<Rightarrow> scalar \<Rightarrow> scalar" where
  "s_sub = s_lift2 (-)"

definition s_mul :: "scalar \<Rightarrow> scalar \<Rightarrow> scalar" where
  "s_mul = s_lift2 (*)"

fun s_div :: "scalar \<Rightarrow> scalar \<Rightarrow> scalar" where
  "s_div (Finite x) (Finite y) = (if y = 0 then NonFinite else Finite (x / y))"
| "s_div _ _ = NonFinite"

definition s_neg :: "scalar \<Rightarrow> scalar" where
  "s_neg = s_lift1 uminus"

definition s_recip :: "scalar \<Rightarrow> scalar" where
  "s_recip x = s_div (Finite 1) x"

definition s_abs :: "scalar \<Rightarrow> scalar" where
  "s_abs = s_lift1 abs"

definition s_tanh :: "scalar \<Rightarrow> scalar" where
  "s_tanh = s_lift1 tanh"

definition s_exp :: "scalar \<Rightarrow> scalar" where
  "s_exp = s_lift1 exp"

fun s_log :: "scalar \<Rightarrow> scalar" where
  "s_log (Finite x) = (if x \<le> 0 then NonFinite else Finite (ln x))"
| "s_log NonFinite = NonFinite"

fun s_sqrt :: "scalar \<Rightarrow> scalar" where
  "s_sqrt (Finite x) = (if x < 0 then NonFinite else Finite (sqrt x))"
| "s_sqrt NonFinite = NonFinite"

text \<open>\<open>x ** n\<close> for a Python integer \<open>n\<close>; a negative exponent is a reciprocal.\<close>

definition s_pow :: "scalar \<Rightarrow> int \<Rightarrow> scalar" where
  "s_pow x n = (if 0 \<le> n then s_lift1 (\<lambda>a. a ^ nat n) x
                else s_div (Finite 1) (s_lift1 (\<lambda>a. a ^ nat (- n)) x))"

definition s_sum :: "scalar list \<Rightarrow> scalar" where
  "s_sum xs = foldr s_add xs (Finite 0)"

definition dot :: "scalar list \<Rightarrow> scalar list \<Rightarrow> scalar" where
  "dot xs ys = s_sum (map2 s_mul xs ys)"

text \<open>
  Overflow of float32: a result whose magnitude exceeds the largest finite float32,
  \<open>(2 - 2^-23) * 2^127\<close>, is an infinity, and every operation on it stays non-finite in
  the programs below (an infinity times zero is NaN).
\<close>

definition float32_max :: real where
  "float32_max = (2 ^ 24 - 1) * 2 ^ 104"

fun range32 :: "scalar \<Rightarrow> scalar" where
  "range32 (Finite x) = (if \<bar>x\<bar> \<le> float32_max then Finite x else NonFinite)"
| "range32 NonFinite = NonFinite"

text \<open>The additive guard \<open>1e-9\<close> in front of each logarithm.\<close>

definition eps_guard :: real where
  "eps_guard = 1 / 10 ^ 9"

section \<open>Tensors\<close>

text \<open>
  A two-dimensional tensor of shape \<open>(nrows, ncols)\<close> is its list of rows together with
  the column count, which a tensor with no rows still has. A one-dimensional tensor of
  shape \<open>(n)\<close> is a list of \<open>n\<close> scalars; a tensor created as \<open>torch.Tensor(1)\<close> is one
  scalar. Operations that the runtime refuses (a shape mismatch, a negative size, a size
  beyond a signed 64-bit integer, the concatenation of no tensor, the read of an
  attribute that an object does not have) raise an exception; they return \<open>Inl\<close>.
\<close>

datatype error = ShapeError | NegativeDimension | SizeOverflow | EmptyCat | AttributeError

datatype tensor = Tensor (ncols: nat) (rows: "scalar list list")

definition nrows :: "tensor \<Rightarrow> nat" where
  "nrows t = length (rows t)"

definition wf_tensor :: "tensor \<Rightarrow> bool" where
  "wf_tensor t = list_all (\<lambda>r. length r = ncols t) (rows t)"

definition bindE :: "error + 'a \<Rightarrow> ('a \<Rightarrow> error + 'b) \<Rightarrow> error + 'b" where
  "bindE m f = (case m of Inl e \<Rightarrow> Inl e | Inr x \<Rightarrow> f x)"

text \<open>A one-dimensional tensor takes part in broadcasting as a single row.\<close>

definition row_tensor :: "scalar list \<Rightarrow> tensor" where
  "row_tensor v = Tensor (length v) [v]"

text \<open>\<open>unsqueeze(1)\<close> of a one-dimensional tensor: shape \<open>(n)\<close> becomes \<open>(n, 1)\<close>.\<close>

definition unsqueeze1 :: "scalar list \<Rightarrow> tensor" where
  "unsqueeze1 v = Tensor 1 (map (\<lambda>x. [x]) v)"

text \<open>
  Broadcasting of two sizes along one axis: equal sizes stay, a size of one stretches to
  the other size, anything else is refused.
\<close>

definition broadcast_dim :: "nat \<Rightarrow> nat \<Rightarrow> error + nat" where
  "broadcast_dim m n =
     (if m = n then Inr m else if m = 1 then Inr n else if n = 1 then Inr m
      else Inl ShapeError)"

definition expand_row :: "nat \<Rightarrow> nat \<Rightarrow> scalar list \<Rightarrow> scalar list" where
  "expand_row c C r = (if c = 1 \<and> C \<noteq> 1 then replicate C (hd r) else r)"

definition expand :: "nat \<Rightarrow> nat \<Rightarrow> tensor \<Rightarrow> scalar list list" where
  "expand R C t =
     (let rs = map (expand_row (ncols t) C) (rows t)
      in if nrows t = 1 \<and> R \<noteq> 1 then replicate R (hd rs) else rs)"

definition t_binop :: "(scalar \<Rightarrow> scalar \<Rightarrow> scalar) \<Rightarrow> tensor \<Rightarrow> tensor \<Rightarrow> error + tensor" where
  "t_binop f a b =
     bindE (broadcast_dim (nrows a) (nrows b)) (\<lambda>R.
     bindE (broadcast_dim (ncols a) (ncols b)) (\<lambda>C.
       Inr (Tensor C (map2 (map2 f) (expand R C a) (expand R C b)))))"

definition t_add :: "tensor \<Rightarrow> tensor \<Rightarrow> error + tensor" where
  "t_add = t_binop s_add"

definition t_sub :: "tensor \<Rightarrow> tensor \<Rightarrow> error + tensor" where
  "t_sub = t_binop s_sub"

definition t_mul :: "tensor \<Rightarrow> tensor \<Rightarrow> error + tensor" where
  "t_mul = t_binop s_mul"

text \<open>The same operations with the overflow of float32 on every element of the result.\<close>

definition t_add32 :: "tensor \<Rightarrow> tensor \<Rightarrow> error + tensor" where
  "t_add32 = t_binop (\<lambda>x y. range32 (s_add x y))"

definition t_sub32 :: "tensor \<Rightarrow> tensor \<Rightarrow> error + tensor" where
  "t_sub32 = t_binop (\<lambda>x y. range32 (s_sub x y))"

definition t_mul32 :: "tensor \<Rightarrow> tensor \<Rightarrow> error + tensor" where
  "t_mul32 = t_binop (\<lambda>x y. range32 (s_mul x y))"

definition t_map :: "(scalar \<Rightarrow> scalar) \<Rightarrow> tensor \<Rightarrow> tensor" where
  "t_map f t = Tensor (ncols t) (map (map f) (rows t))"

text \<open>\<open>t()\<close>: the transpose of a two-dimensional tensor.\<close>

definition t_t :: "tensor \<Rightarrow> tensor" where
  "t_t t = Tensor (nrows t) (map (\<lambda>j. map (\<lambda>r. r ! j) (rows t)) [0..<ncols t])"

text \<open>\<open>torch.mm\<close>: the matrix product; the inner sizes must agree.\<close>

definition mm :: "tensor \<Rightarrow> tensor \<Rightarrow> error + tensor" where
  "mm a b =
     (if ncols a \<noteq> nrows b then Inl ShapeError
      else Inr (Tensor (ncols b)
             (map (\<lambda>r. map (\<lambda>j. dot r (map (\<lambda>br. br ! j) (rows b))) [0..<ncols b]) (rows a))))"

text \<open>
  \<open>F.linear(input, weight, bias)\<close>: \<open>input @ weight.t() + bias\<close>, with \<open>weight\<close> of shape
  \<open>(out, in)\<close> and the one-dimensional \<open>bias\<close> broadcast over the rows.
\<close>

definition F_linear :: "tensor \<Rightarrow> tensor \<Rightarrow> scalar list \<Rightarrow> error + tensor" where
  "F_linear inp w b =
     (if ncols inp \<noteq> ncols w then Inl ShapeError
      else bindE (mm inp (t_t w)) (\<lambda>p. t_add p (row_tensor b)))"

text \<open>\<open>torch.norm(t, dim=1)\<close>: the Euclidean norm of each row, a one-dimensional tensor.\<close>

definition norm_dim1 :: "tensor \<Rightarrow> scalar list" where
  "norm_dim1 t = map (\<lambda>r. s_sqrt (s_sum (map (\<lambda>x. s_mul x x) r))) (rows t)"

text \<open>\<open>sum()\<close> over all elements, a scalar.\<close>

definition t_sum :: "tensor \<Rightarrow> scalar" where
  "t_sum t = s_sum (concat (rows t))"

text \<open>
  \<open>torch.cat\<close> along the first axis: refused for an empty list and for tensors whose
  column counts differ.
\<close>

definition cat :: "tensor list \<Rightarrow> error + tensor" where
  "cat ts =
     (case ts of
        [] \<Rightarrow> Inl EmptyCat
      | t # _ \<Rightarrow>
          if list_all (\<lambda>u. ncols u = ncols t) ts
          then Inr (Tensor (ncols t) (concat (map rows ts)))
          else Inl ShapeError)"

section \<open>Flows\<close>

text \<open>
  \<open>torch.Tensor(1, dim)\<close> allocates a tensor of shape \<open>(1, dim)\<close>; it refuses a negative size
  and a size that does not fit a signed 64-bit integer (the memory of the machine is not
  modelled). \<open>Flow.init_parameters\<close> then fills every parameter, in declaration order, with
  \<open>uniform_(-0.01, 0.01)\<close>. The random generator is a stream of draws from the unit
  interval, passed through as state.
\<close>

type_synonym rng = "nat \<Rightarrow> real"

definition alloc :: "int \<Rightarrow> error + nat" where
  "alloc n =
     (if n < 0 then Inl NegativeDimension
      else if 2 ^ 63 \<le> n then Inl SizeOverflow
      else Inr (nat n))"

definition uniform :: "real \<Rightarrow> real \<Rightarrow> nat \<Rightarrow> rng \<Rightarrow> scalar list \<times> rng" where
  "uniform lo hi n g =
     (map (\<lambda>i. Finite (lo + (hi - lo) * g i)) [0..<n], (\<lambda>i. g (i + n)))"

record PlanarFlow =
  weight :: "scalar list"
  scale :: "scalar list"
  bias :: scalar

record RadialFlow =
  z0 :: "scalar list"
  alpha :: scalar
  beta :: scalar
  dim :: int

text \<open>
  \<^verbatim>\<open>
  class PlanarFlow(Flow):
      def __init__(self, dim):
          super(PlanarFlow, self).__init__()
          self.weight = nn.Parameter(torch.Tensor(1, dim))
          self.scale = nn.Parameter(torch.Tensor(1, dim))
          self.bias = nn.Parameter(torch.Tensor(1))
          self.init_parameters()
      def _call(self, z):
          f_z = F.linear(z, self.weight, self.bias)
          return z + self.scale * torch.tanh(f_z)
      def log_abs_det_jacobian(self, z):
          f_z = F.linear(z, self.weight, self.bias)
          psi = (1 - torch.tanh(f_z) ** 2) * self.weight
          det_grad = 1 + torch.mm(psi, self.scale.t())
          return torch.log(det_grad.abs() + 1e-9)
  \<close>
  The parameters \<open>weight\<close> and \<open>scale\<close> of shape \<open>(1, dim)\<close> are kept as their single row,
  \<open>bias\<close> of shape \<open>(1)\<close> as its single element.
\<close>

definition PlanarFlow_init :: "int \<Rightarrow> rng \<Rightarrow> error + (PlanarFlow \<times> rng)" where
  "PlanarFlow_init d g =
     bindE (alloc d) (\<lambda>n.
       let (w, g1) = uniform (- 0.01) 0.01 n g;
           (s, g2) = uniform (- 0.01) 0.01 n g1;
           (b, g3) = uniform (- 0.01) 0.01 1 g2
       in Inr (\<lparr>weight = w, scale = s, bias = hd b\<rparr>, g3))"

definition PlanarFlow_call :: "PlanarFlow \<Rightarrow> tensor \<Rightarrow> error + tensor" where
  "PlanarFlow_call f z =
     bindE (F_linear z (row_tensor (weight f)) [bias f]) (\<lambda>f_z.
     bindE (t_mul (row_tensor (scale f)) (t_map s_tanh f_z)) (\<lambda>d.
       t_add z d))"

definition PlanarFlow_log_abs_det_jacobian :: "PlanarFlow \<Rightarrow> tensor \<Rightarrow> error + tensor" where
  "PlanarFlow_log_abs_det_jacobian f z =
     bindE (F_linear z (row_tensor (weight f)) [bias f]) (\<lambda>f_z.
     bindE (t_mul (t_map (\<lambda>x. s_sub (Finite 1) (s_pow (s_tanh x) 2)) f_z)
                  (row_tensor (weight f))) (\<lambda>psi.
     bindE (mm psi (t_t (row_tensor (scale f)))) (\<lambda>m.
       let det_grad = t_map (s_add (Finite 1)) m
       in Inr (t_map (\<lambda>x. s_log (s_add (s_abs x) (Finite eps_guard))) det_grad))))"

text \<open>
  \<^verbatim>\<open>
  class RadialFlow(Flow):
      def __init__(self, dim):
          super(RadialFlow, self).__init__()
          self.z0 = nn.Parameter(torch.Tensor(1, dim))
          self.alpha = nn.Parameter(torch.Tensor(1))
          self.beta = nn.Parameter(torch.Tensor(1))
          self.dim = dim
          self.init_parameters()
      def _call(self, z):
          r = torch.norm(z - self.z0, dim=1).unsqueeze(1)
          h = 1 / (self.alpha + r)
          return z + (self.beta * h * (z - self.z0))
      def log_abs_det_jacobian(self, z):
          r = torch.norm(z - self.z0, dim=1).unsqueeze(1)
          h = 1 / (self.alpha + r)
          hp = - 1 / (self.alpha + r) ** 2
          bh = self.beta * h
          det_grad = ((1 + bh) ** self.dim - 1) * (1 + bh + self.beta * hp * r)
          return torch.log(det_grad.abs() + 1e-9)
  \<close>
\<close>

definition RadialFlow_init :: "int \<Rightarrow> rng \<Rightarrow> error + (RadialFlow \<times> rng)" where
  "RadialFlow_init d g =
     bindE (alloc d) (\<lambda>n.
       let (c, g1) = uniform (- 0.01) 0.01 n g;
           (a, g2) = uniform (- 0.01) 0.01 1 g1;
           (b, g3) = uniform (- 0.01) 0.01 1 g2
       in Inr (\<lparr>z0 = c, alpha = hd a, beta = hd b, dim = d\<rparr>, g3))"

text \<open>
  The forward transform is modelled with the overflow of float32: every tensor operation
  of \<open>_call\<close> yields its exact result where that lies within the float32 range and the
  non-finite value beyond it. So a quotient \<open>1 / (alpha + r)\<close> or a product \<open>beta * h\<close> that
  overflows makes the displacement, and with it the output, non-finite, also where
  \<open>z - z0\<close> is zero. The programs that the statements below compare with a formula
  computed by the same operations in the same order stay on the exact reals: there an
  overflow falls on both sides alike.
\<close>

definition RadialFlow_call :: "RadialFlow \<Rightarrow> tensor \<Rightarrow> error + tensor" where
  "RadialFlow_call f z =
     bindE (t_sub32 z (row_tensor (z0 f))) (\<lambda>d.
     let r = unsqueeze1 (map range32 (norm_dim1 d))
     in bindE (t_add32 (row_tensor [alpha f]) r) (\<lambda>ar.
        let h = t_map (\<lambda>x. range32 (s_div (Finite 1) x)) ar
        in bindE (t_mul32 (row_tensor [beta f]) h) (\<lambda>bh.
           bindE (t_sub32 z (row_tensor (z0 f))) (\<lambda>d2.
           bindE (t_mul32 bh d2) (\<lambda>m.
             t_add32 z m)))))"

text \<open>
  In \<open>- 1 / (self.alpha + r) ** 2\<close> the power binds tighter than the division and the
  sign belongs to the numerator: \<open>(-1) / ((self.alpha + r) ** 2)\<close>.
\<close>

definition RadialFlow_log_abs_det_jacobian :: "RadialFlow \<Rightarrow> tensor \<Rightarrow> error + tensor" where
  "RadialFlow_log_abs_det_jacobian f z =
     bindE (t_sub z (row_tensor (z0 f))) (\<lambda>d.
     let r = unsqueeze1 (norm_dim1 d)
     in bindE (t_add (row_tensor [alpha f]) r) (\<lambda>ar.
        let h = t_map (s_div (Finite 1)) ar
        in bindE (t_add (row_tensor [alpha f]) r) (\<lambda>ar2.
           let hp = t_map (\<lambda>x. s_div (Finite (- 1)) (s_pow x 2)) ar2
           in bindE (t_mul (row_tensor [beta f]) h) (\<lambda>bh.
              let p = t_map (\<lambda>x. s_sub (s_pow (s_add (Finite 1) x) (dim f)) (Finite 1)) bh
              in bindE (t_mul (row_tensor [beta f]) hp) (\<lambda>bhp.
                 bindE (t_mul bhp r) (\<lambda>bhpr.
                 bindE (t_add (t_map (s_add (Finite 1)) bh) bhpr) (\<lambda>q.
                 bindE (t_mul p q) (\<lambda>det_grad.
                   Inr (t_map (\<lambda>x. s_log (s_add (s_abs x) (Finite eps_guard))) det_grad)))))))))"

text \<open>
  The two flow classes of the notebook. Calling a flow object runs its \<open>_call\<close>
  (\<open>Transform.__call__\<close> with the default cache size of zero).
\<close>

datatype flow = Planar PlanarFlow | Radial RadialFlow

fun flow_call :: "flow \<Rightarrow> tensor \<Rightarrow> error + tensor" where
  "flow_call (Planar f) z = PlanarFlow_call f z"
| "flow_call (Radial f) z = RadialFlow_call f z"

fun flow_log_abs_det_jacobian :: "flow \<Rightarrow> tensor \<Rightarrow> error + tensor" where
  "flow_log_abs_det_jacobian (Planar f) z = PlanarFlow_log_abs_det_jacobian f z"
| "flow_log_abs_det_jacobian (Radial f) z = RadialFlow_log_abs_det_jacobian f z"

section \<open>NormalizingFlow\<close>

text \<open>
  \<^verbatim>\<open>
  class NormalizingFlow(nn.Module):
      def __init__(self, dim, blocks, flow_length, density):
          super().__init__()
          biject = []
          for f in range(flow_length):
              for b_flow in blocks:
                  biject.append(b_flow(dim))
          self.transforms = transform.ComposeTransform(biject)
          self.bijectors = nn.ModuleList(biject)
          self.base_density = density
          self.final_density = distrib.TransformedDistribution(density, self.transforms)
          self.log_det = []
      def forward(self, z):
          self.log_det = []
          for b in range(len(self.bijectors)):
              self.log_det.append(self.bijectors[b].log_abs_det_jacobian(z))
              z = self.bijectors[b](z)
          return z, self.log_det
  \<close>
  The composed transform is the list of its parts, the transformed distribution the pair
  of the base density and that list.

  \<open>distrib.TransformedDistribution(density, transforms)\<close> reads the attribute \<open>domain\<close> of
  the composed transform, which is the \<open>domain\<close> of its first part, or that of the reals
  when there is no part. The class \<open>Flow\<close> and its two subclasses define neither \<open>domain\<close>
  nor \<open>codomain\<close>, so for a non-empty list of flows the read raises \<open>AttributeError\<close> and
  the exception leaves \<open>__init__\<close>.
\<close>

definition TransformedDistribution :: "'d \<Rightarrow> flow list \<Rightarrow> error + ('d \<times> flow list)" where
  "TransformedDistribution density ts =
     (if ts = [] then Inr (density, ts) else Inl AttributeError)"

text \<open>The entries of \<open>blocks\<close> are flow classes; \<open>b_flow(dim)\<close> instantiates one.\<close>

datatype block = PlanarFlowClass | RadialFlowClass

fun block_init :: "block \<Rightarrow> int \<Rightarrow> rng \<Rightarrow> error + (flow \<times> rng)" where
  "block_init PlanarFlowClass d g = bindE (PlanarFlow_init d g) (\<lambda>(f, g'). Inr (Planar f, g'))"
| "block_init RadialFlowClass d g = bindE (RadialFlow_init d g) (\<lambda>(f, g'). Inr (Radial f, g'))"

record 'd NormalizingFlow =
  transforms :: "flow list"
  bijectors :: "flow list"
  base_density :: 'd
  final_density :: "'d \<times> flow list"
  log_det :: "tensor list"

text \<open>The inner loop \<open>for b_flow in blocks: biject.append(b_flow(dim))\<close>.\<close>

fun init_blocks :: "block list \<Rightarrow> int \<Rightarrow> flow list \<Rightarrow> rng \<Rightarrow> error + (flow list \<times> rng)" where
  "init_blocks [] d biject g = Inr (biject, g)"
| "init_blocks (b # bs) d biject g =
     bindE (block_init b d g) (\<lambda>(f, g'). init_blocks bs d (biject @ [f]) g')"

text \<open>
  The outer loop \<open>for f in range(flow_length)\<close>, on the number of its iterations:
  \<open>range\<close> of a negative number is empty.
\<close>

fun init_repeat :: "nat \<Rightarrow> block list \<Rightarrow> int \<Rightarrow> flow list \<Rightarrow> rng \<Rightarrow> error + (flow list \<times> rng)" where
  "init_repeat 0 blocks d biject g = Inr (biject, g)"
| "init_repeat (Suc n) blocks d biject g =
     bindE (init_blocks blocks d biject g) (\<lambda>(biject', g'). init_repeat n blocks d biject' g')"

definition NormalizingFlow_init ::
  "int \<Rightarrow> block list \<Rightarrow> int \<Rightarrow> 'd \<Rightarrow> rng \<Rightarrow> error + ('d NormalizingFlow \<times> rng)" where
  "NormalizingFlow_init d blocks flow_length density g =
     bindE (init_repeat (nat flow_length) blocks d [] g) (\<lambda>(biject, g').
     bindE (TransformedDistribution density biject) (\<lambda>fd.
       Inr (\<lparr>transforms = biject, bijectors = biject, base_density = density,
              final_density = fd, log_det = []\<rparr>, g')))"

text \<open>
  The loop of \<open>forward\<close> over \<open>range(len(self.bijectors))\<close>, on the flows that remain.
  Each round appends to \<open>self.log_det\<close> and then replaces \<open>z\<close>; an exception leaves the
  object as it is at that point.
\<close>

fun forward_loop ::
  "flow list \<Rightarrow> tensor \<Rightarrow> 'd NormalizingFlow \<Rightarrow> (error + tensor) \<times> 'd NormalizingFlow" where
  "forward_loop [] z s = (Inr z, s)"
| "forward_loop (b # bs) z s =
     (case flow_log_abs_det_jacobian b z of
        Inl e \<Rightarrow> (Inl e, s)
      | Inr ld \<Rightarrow>
          (let s' = s\<lparr>log_det := log_det s @ [ld]\<rparr>
           in case flow_call b z of
                Inl e \<Rightarrow> (Inl e, s')
              | Inr z' \<Rightarrow> forward_loop bs z' s'))"

definition NormalizingFlow_forward ::
  "'d NormalizingFlow \<Rightarrow> tensor \<Rightarrow> (error + (tensor \<times> tensor list)) \<times> 'd NormalizingFlow" where
  "NormalizingFlow_forward s z =
     (let s0 = s\<lparr>log_det := []\<rparr>
      in case forward_loop (bijectors s0) z s0 of
           (Inl e, s') \<Rightarrow> (Inl e, s')
         | (Inr z', s') \<Rightarrow> (Inr (z', log_det s'), s'))"

section \<open>Latent sampling\<close>

text \<open>
  \<open>distrib.Normal(torch.zeros(mu.shape[1]), torch.ones(sigma.shape[1]))\<close> broadcasts its
  two one-dimensional arguments; \<open>q.sample((n_batch, ))\<close> is a tensor of shape
  \<open>(n_batch, d)\<close>. The realisation of the draw is the function \<open>eps\<close> of the row and the
  column.
\<close>

definition Normal_sample :: "nat \<Rightarrow> nat \<Rightarrow> nat \<Rightarrow> (nat \<Rightarrow> nat \<Rightarrow> real) \<Rightarrow> error + tensor" where
  "Normal_sample dm ds n eps =
     bindE (broadcast_dim dm ds) (\<lambda>d.
       Inr (Tensor d (map (\<lambda>i. map (\<lambda>j. Finite (eps i j)) [0..<d]) [0..<n])))"

text \<open>
  \<^verbatim>\<open>
  def latent(self, x, z_params):          # class VAE
      n_batch = x.size(0)
      mu, sigma = z_params
      q = distrib.Normal(torch.zeros(mu.shape[1]), torch.ones(sigma.shape[1]))
      z = (sigma * q.sample((n_batch, ))) + mu
      kl_div = -0.5 * torch.sum(1 + sigma - mu.pow(2) - sigma.exp())
      kl_div = kl_div / n_batch
      return z, kl_div
  \<close>
  Only the batch size of \<open>x\<close> is used.
\<close>

definition VAE_latent ::
  "tensor \<Rightarrow> tensor \<times> tensor \<Rightarrow> (nat \<Rightarrow> nat \<Rightarrow> real) \<Rightarrow> error + (tensor \<times> scalar)" where
  "VAE_latent x z_params eps =
     (let n_batch = nrows x; (mu, sigma) = z_params
      in bindE (Normal_sample (ncols mu) (ncols sigma) n_batch eps) (\<lambda>e.
         bindE (t_mul sigma e) (\<lambda>se.
         bindE (t_add se mu) (\<lambda>z.
         bindE (t_sub (t_map (s_add (Finite 1)) sigma) (t_map (\<lambda>m. s_pow m 2) mu)) (\<lambda>a.
         bindE (t_sub a (t_map s_exp sigma)) (\<lambda>b.
           let kl_div = s_mul (Finite (- 0.5)) (t_sum b)
           in Inr (z, s_div kl_div (Finite (real n_batch)))))))))"

text \<open>
  \<^verbatim>\<open>
  def latent(self, x, z_params):          # class VAENormalizingFlow
      n_batch = x.size(0)
      mu, sigma = z_params
      q = distrib.Normal(torch.zeros(mu.shape[1]), torch.ones(sigma.shape[1]))
      z_0 = (sigma * q.sample((n_batch, ))) + mu
      z_k, list_ladj = self.flow(z_0)
      log_p_zk = -0.5 * z_k * z_k
      log_q_z0 = -0.5 * (sigma.log() + (z_0 - mu) * (z_0 - mu) * sigma.reciprocal())
      logs = (log_q_z0 - log_p_zk).sum()
      ladj = torch.cat(list_ladj)
      logs -= torch.sum(ladj)
      return z_k, (logs / float(n_batch))
  \<close>
  The call \<open>self.flow(z_0)\<close> runs \<open>forward\<close> and so updates the flow sequence, which is
  returned with the result.
\<close>

definition VAENormalizingFlow_latent ::
  "'d NormalizingFlow \<Rightarrow> tensor \<Rightarrow> tensor \<times> tensor \<Rightarrow> (nat \<Rightarrow> nat \<Rightarrow> real)
     \<Rightarrow> (error + (tensor \<times> scalar)) \<times> 'd NormalizingFlow" where
  "VAENormalizingFlow_latent fl x z_params eps =
     (let n_batch = nrows x; (mu, sigma) = z_params
      in case bindE (Normal_sample (ncols mu) (ncols sigma) n_batch eps) (\<lambda>e.
              bindE (t_mul sigma e) (\<lambda>se. t_add se mu)) of
           Inl err \<Rightarrow> (Inl err, fl)
         | Inr z_0 \<Rightarrow>
             (case NormalizingFlow_forward fl z_0 of
                (Inl err, fl') \<Rightarrow> (Inl err, fl')
              | (Inr (z_k, list_ladj), fl') \<Rightarrow>
                  (bindE (t_mul (t_map (s_mul (Finite (- 0.5))) z_k) z_k) (\<lambda>log_p_zk.
                   bindE (t_sub z_0 mu) (\<lambda>d.
                   bindE (t_mul d d) (\<lambda>dd.
                   bindE (t_mul dd (t_map s_recip sigma)) (\<lambda>q1.
                   bindE (t_add (t_map s_log sigma) q1) (\<lambda>q2.
                   let log_q_z0 = t_map (s_mul (Finite (- 0.5))) q2
                   in bindE (t_sub log_q_z0 log_p_zk) (\<lambda>diff.
                      let logs = t_sum diff
                      in bindE (cat list_ladj) (\<lambda>ladj.
                         let logs' = s_sub logs (t_sum ladj)
                         in Inr (z_k, s_div logs' (Finite (real n_batch)))))))))),
                   fl')))"

section \<open>Notions used in the statements\<close>

text \<open>
  What \<open>RadialFlow._call\<close> does to one row \<open>z\<close> of the batch, operation by operation:
  \<open>r = ||z - z0||\<close>, \<open>h = 1/(alpha + r)\<close>, \<open>y = z + beta*h*(z - z0)\<close>, each with the
  overflow of float32.
\<close>

definition radial_r32 :: "scalar list \<Rightarrow> scalar list \<Rightarrow> scalar" where
  "radial_r32 c z =
     range32 (s_sqrt (s_sum (map (\<lambda>x. s_mul x x) (map2 (\<lambda>x y. range32 (s_sub x y)) z c))))"

definition radial_call_row :: "scalar list \<Rightarrow> scalar \<Rightarrow> scalar \<Rightarrow> scalar list \<Rightarrow> scalar list" where
  "radial_call_row c a b z =
     (let r = radial_r32 c z;
          h = range32 (s_div (Finite 1) (range32 (s_add a r)));
          bh = range32 (s_mul b h)
      in map2 (\<lambda>zj cj. range32 (s_add zj (range32 (s_mul bh (range32 (s_sub zj cj)))))) z c)"

text \<open>
  A flow instance fits batches of width \<open>D\<close> when its vector parameters have length \<open>D\<close>,
  as the constructors make them.
\<close>

fun has_dim :: "flow \<Rightarrow> nat \<Rightarrow> bool" where
  "has_dim (Planar f) D = (length (weight f) = D \<and> length (scale f) = D)"
| "has_dim (Radial f) D = (length (z0 f) = D)"

fun flow_class :: "flow \<Rightarrow> block" where
  "flow_class (Planar f) = PlanarFlowClass"
| "flow_class (Radial f) = RadialFlowClass"

text \<open>The composition of the forward transforms of a list of flows, in list order.\<close>

fun apply_flows :: "flow list \<Rightarrow> tensor \<Rightarrow> error + tensor" where
  "apply_flows [] z = Inr z"
| "apply_flows (b # bs) z = bindE (flow_call b z) (apply_flows bs)"

text \<open>The element of a tensor at a row and a column, and the tensor given by its elements.\<close>

definition elem :: "tensor \<Rightarrow> nat \<Rightarrow> nat \<Rightarrow> scalar" where
  "elem t i j = rows t ! i ! j"

definition tab :: "nat \<Rightarrow> nat \<Rightarrow> (nat \<Rightarrow> nat \<Rightarrow> scalar) \<Rightarrow> tensor" where
  "tab B D g = Tensor D (map (\<lambda>i. map (g i) [0..<D]) [0..<B])"

section \<open>The formulas of the specification\<close>

text \<open>
  The definitions of this section follow the words of the specification, sample by
  sample and element by element; the theorems compare them with the tensor programs.
\<close>

text \<open>Planar flow: \<open>y = z + u * tanh(w\<cdot>z + b)\<close>.\<close>

definition spec_planar_forward :: "scalar list \<Rightarrow> scalar list \<Rightarrow> scalar \<Rightarrow> scalar list \<Rightarrow> scalar list" where
  "spec_planar_forward w u b z =
     map2 (\<lambda>zj uj. s_add zj (s_mul uj (s_tanh (s_add (dot w z) b)))) z u"

text \<open>
  Planar flow: \<open>psi = (1 - tanh(w\<cdot>z+b)^2) * w\<close>, \<open>det = 1 + psi\<cdot>u\<close>, result
  \<open>log(|det| + \<epsilon>)\<close>.
\<close>

definition spec_planar_log_det :: "scalar list \<Rightarrow> scalar list \<Rightarrow> scalar \<Rightarrow> scalar list \<Rightarrow> scalar" where
  "spec_planar_log_det w u b z =
     (let psi = map (s_mul (s_sub (Finite 1) (s_pow (s_tanh (s_add (dot w z) b)) 2))) w;
          det = s_add (Finite 1) (dot psi u)
      in s_log (s_add (s_abs det) (Finite eps_guard)))"

text \<open>Radial flow: \<open>r = ||z - z0||\<close>, \<open>h = 1/(alpha + r)\<close>.\<close>

definition spec_radial_r :: "scalar list \<Rightarrow> scalar list \<Rightarrow> scalar" where
  "spec_radial_r c z = s_sqrt (s_sum (map (\<lambda>x. s_mul x x) (map2 s_sub z c)))"

text \<open>
  Radial flow: \<open>hp = -1/(alpha+r)^2\<close>, \<open>bh = beta*h\<close>,
  \<open>det = ((1+bh)^dim - 1) * (1 + bh + beta*hp*r)\<close>, result \<open>log(|det| + \<epsilon>)\<close>.
\<close>

definition spec_radial_log_det :: "scalar list \<Rightarrow> scalar \<Rightarrow> scalar \<Rightarrow> int \<Rightarrow> scalar list \<Rightarrow> scalar" where
  "spec_radial_log_det c a b d z =
     (let r = spec_radial_r c z;
          h = s_div (Finite 1) (s_add a r);
          hp = s_neg (s_div (Finite 1) (s_pow (s_add a r) 2));
          bh = s_mul b h;
          det = s_mul (s_sub (s_pow (s_add (Finite 1) bh) d) (Finite 1))
                      (s_add (s_add (Finite 1) bh) (s_mul (s_mul b hp) r))
      in s_log (s_add (s_abs det) (Finite eps_guard)))"

text \<open>The reparameterised draw \<open>z = sigma * eps + mu\<close>.\<close>

definition spec_reparam :: "tensor \<Rightarrow> tensor \<Rightarrow> (nat \<Rightarrow> nat \<Rightarrow> real) \<Rightarrow> tensor" where
  "spec_reparam mu sigma eps =
     tab (nrows mu) (ncols mu)
       (\<lambda>i j. s_add (s_mul (elem sigma i j) (Finite (eps i j))) (elem mu i j))"

text \<open>Plain mode: \<open>kl = -0.5 * sum(1 + sigma - mu^2 - exp(sigma)) / batch_size\<close>.\<close>

definition spec_kl :: "tensor \<Rightarrow> tensor \<Rightarrow> nat \<Rightarrow> scalar" where
  "spec_kl mu sigma batch_size =
     s_div (s_mul (Finite (- 0.5))
              (t_sum (tab (nrows mu) (ncols mu)
                 (\<lambda>i j. s_sub (s_sub (s_add (Finite 1) (elem sigma i j)) (s_pow (elem mu i j) 2))
                              (s_exp (elem sigma i j))))))
           (Finite (real batch_size))"

text \<open>
  Flow-augmented mode: \<open>log_p_zk = -0.5 * zk^2\<close> and
  \<open>log_q_z0 = -0.5 * (log(sigma) + (z0-mu)^2 / sigma)\<close> per element; \<open>logs\<close> is the sum of
  \<open>log_q_z0 - log_p_zk\<close> over all elements and samples, minus the sum of all recorded
  log-determinants.
\<close>

definition spec_log_p_zk :: "scalar \<Rightarrow> scalar" where
  "spec_log_p_zk zk = s_mul (Finite (- 0.5)) (s_pow zk 2)"

definition spec_log_q_z0 :: "scalar \<Rightarrow> scalar \<Rightarrow> scalar \<Rightarrow> scalar" where
  "spec_log_q_z0 sigma z_0 mu =
     s_mul (Finite (- 0.5)) (s_add (s_log sigma) (s_div (s_pow (s_sub z_0 mu) 2) sigma))"

definition spec_logs :: "tensor \<Rightarrow> tensor \<Rightarrow> tensor \<Rightarrow> tensor \<Rightarrow> tensor list \<Rightarrow> scalar" where
  "spec_logs mu sigma z_0 z_k lds =
     s_sub (t_sum (tab (nrows mu) (ncols mu)
              (\<lambda>i j. s_sub (spec_log_q_z0 (elem sigma i j) (elem z_0 i j) (elem mu i j))
                           (spec_log_p_zk (elem z_k i j)))))
           (s_sum (map t_sum lds))"

section \<open>Fixtures\<close>

text \<open>
  The instances on which the development evaluates the programs: the two-dimensional
  planar flow of the specification's test (\<open>w = [1,0]\<close>, \<open>u = [1,0]\<close>, \<open>b = 0\<close>), a radial
  flow centred at the origin, the batch \<open>[[0,0]]\<close> and the sequence of the two flows.
\<close>

definition fixture_planar :: PlanarFlow where
  "fixture_planar = \<lparr>weight = [Finite 1, Finite 0], scale = [Finite 1, Finite 0], bias = Finite 0\<rparr>"

definition fixture_radial :: RadialFlow where
  "fixture_radial = \<lparr>z0 = [Finite 0, Finite 0], alpha = Finite 1, beta = Finite 1, dim = 2\<rparr>"

definition fixture_batch :: tensor where
  "fixture_batch = Tensor 2 [[Finite 0, Finite 0]]"

definition fixture_sequence :: "unit NormalizingFlow" where
  "fixture_sequence =
     \<lparr>transforms = [Planar fixture_planar, Radial fixture_radial],
      bijectors = [Planar fixture_planar, Radial fixture_radial],
      base_density = (),
      final_density = ((), [Planar fixture_planar, Radial fixture_radial]),
      log_det = []\<rparr>"

text \<open>
  A generator that always draws the same number, a draw that is zero everywhere, and a
  scale of ones for the fixture batch.
\<close>

definition const_rng :: "real \<Rightarrow> rng" where
  "const_rng c = (\<lambda>i. c)"

definition zero_draw :: "nat \<Rightarrow> nat \<Rightarrow> real" where
  "zero_draw i j = 0"

definition fixture_sigma :: tensor where
  "fixture_sigma = Tensor 2 [[Finite 1, Finite 1]]"

section \<open>Tensor operations on the shapes the notebook uses\<close>

lemma bindE_simps [simp]: "bindE (Inl e) f = Inl e" "bindE (Inr x) f = f x"
  by (simp_all add: bindE_def)

lemma map2_replicate_right: "map2 g xs (replicate (length xs) y) = map (\<lambda>x. g x y) xs"
  by (induction xs) auto

lemma map2_replicate_left: "map2 g (replicate (length ys) x) ys = map (g x) ys"
  by (induction ys) auto

lemma expand_row_same: "expand_row c c = (\<lambda>r. r)"
  by (rule ext) (simp add: expand_row_def)

lemma expand_self: "expand (nrows t) (ncols t) t = rows t"
  by (simp add: expand_def expand_row_same)

lemma row_tensor_shape: "nrows (row_tensor v) = 1" "ncols (row_tensor v) = length v"
  by (simp_all add: row_tensor_def nrows_def)

lemma column_shape: "nrows (Tensor 1 (map (\<lambda>x. [x]) xs)) = length xs" "ncols (Tensor 1 (map (\<lambda>x. [x]) xs)) = 1"
  by (simp_all add: nrows_def)

lemma expand_row_tensor: "expand R (length v) (row_tensor v) = replicate R v"
  by (cases "R = 1") (simp_all add: expand_def expand_row_def row_tensor_def nrows_def)

lemma expand_column: "expand (length xs) C (Tensor 1 (map (\<lambda>x. [x]) xs)) = map (replicate C) xs"
  by (cases "C = 1") (auto simp add: expand_def expand_row_def nrows_def)

lemma broadcast_dim_simps:
  "broadcast_dim m m = Inr m" "broadcast_dim 1 n = Inr n" "broadcast_dim m 1 = Inr m"
  by (auto simp add: broadcast_dim_def)

lemma t_binop_expand:
  assumes "broadcast_dim (nrows a) (nrows b) = Inr R"
    and "broadcast_dim (ncols a) (ncols b) = Inr C"
    and "map2 (map2 f) (expand R C a) (expand R C b) = rs"
  shows "t_binop f a b = Inr (Tensor C rs)"
  using assms by (simp add: t_binop_def)

text \<open>shape (B, D) with shape (1, D)\<close>
lemma t_binop_row:
  assumes "ncols a = length v"
  shows "t_binop f a (row_tensor v) = Inr (Tensor (length v) (map (\<lambda>r. map2 f r v) (rows a)))"
proof (rule t_binop_expand)
  show "broadcast_dim (nrows a) (nrows (row_tensor v)) = Inr (nrows a)"
    by (simp only: row_tensor_shape broadcast_dim_simps)
  show "broadcast_dim (ncols a) (ncols (row_tensor v)) = Inr (length v)"
    by (simp only: row_tensor_shape assms broadcast_dim_simps)
  have "expand (nrows a) (length v) a = rows a"
    using expand_self [of a] assms by simp
  then show "map2 (map2 f) (expand (nrows a) (length v) a) (expand (nrows a) (length v) (row_tensor v))
               = map (\<lambda>r. map2 f r v) (rows a)"
    by (simp only: expand_row_tensor nrows_def map2_replicate_right)
qed

text \<open>shape (1, D) with shape (B, 1)\<close>
lemma t_binop_row_column_raw:
  "t_binop f (row_tensor v) (Tensor 1 (map (\<lambda>x. [x]) xs))
     = Inr (Tensor (length v) (map (\<lambda>x. map (\<lambda>a. f a x) v) xs))"
proof (rule t_binop_expand)
  show "broadcast_dim (nrows (row_tensor v)) (nrows (Tensor 1 (map (\<lambda>x. [x]) xs))) = Inr (length xs)"
    by (simp only: row_tensor_shape column_shape broadcast_dim_simps)
  show "broadcast_dim (ncols (row_tensor v)) (ncols (Tensor 1 (map (\<lambda>x. [x]) xs))) = Inr (length v)"
    by (simp only: row_tensor_shape column_shape broadcast_dim_simps)
  have "map2 (map2 f) (replicate (length xs) v) (map (replicate (length v)) xs)
             = map (\<lambda>x. map (\<lambda>a. f a x) v) xs"
    by (induction xs) (simp_all add: map2_replicate_right)
  then show "map2 (map2 f) (expand (length xs) (length v) (row_tensor v))
          (expand (length xs) (length v) (Tensor 1 (map (\<lambda>x. [x]) xs)))
        = map (\<lambda>x. map (\<lambda>a. f a x) v) xs"
    by (simp only: expand_row_tensor expand_column)
qed

text \<open>shape (B, 1) with shape (1, D)\<close>
lemma t_binop_column_row_raw:
  "t_binop f (Tensor 1 (map (\<lambda>x. [x]) xs)) (row_tensor v)
     = Inr (Tensor (length v) (map (\<lambda>x. map (f x) v) xs))"
proof (rule t_binop_expand)
  show "broadcast_dim (nrows (Tensor 1 (map (\<lambda>x. [x]) xs))) (nrows (row_tensor v)) = Inr (length xs)"
    by (simp only: row_tensor_shape column_shape broadcast_dim_simps)
  show "broadcast_dim (ncols (Tensor 1 (map (\<lambda>x. [x]) xs))) (ncols (row_tensor v)) = Inr (length v)"
    by (simp only: row_tensor_shape column_shape broadcast_dim_simps)
  have "map2 (map2 f) (map (replicate (length v)) xs) (replicate (length xs) v)
             = map (\<lambda>x. map (f x) v) xs"
    by (induction xs) (simp_all add: map2_replicate_left)
  then show "map2 (map2 f) (expand (length xs) (length v) (Tensor 1 (map (\<lambda>x. [x]) xs)))
          (expand (length xs) (length v) (row_tensor v))
        = map (\<lambda>x. map (f x) v) xs"
    by (simp only: expand_row_tensor expand_column)
qed

lemma t_binop_row_column:
  "t_binop f (row_tensor v) (unsqueeze1 xs)
     = Inr (Tensor (length v) (map (\<lambda>x. map (\<lambda>a. f a x) v) xs))"
  unfolding unsqueeze1_def by (rule t_binop_row_column_raw)

lemma t_binop_column_row:
  "t_binop f (unsqueeze1 xs) (row_tensor v)
     = Inr (Tensor (length v) (map (\<lambda>x. map (f x) v) xs))"
  unfolding unsqueeze1_def by (rule t_binop_column_row_raw)

text \<open>shape (1) with shape (B, 1)\<close>
lemma t_binop_one_column:
  "t_binop f (row_tensor [a]) (unsqueeze1 xs) = Inr (unsqueeze1 (map (f a) xs))"
  using t_binop_row_column [of f "[a]" xs] by (simp add: unsqueeze1_def comp_def)

text \<open>equal shapes\<close>
lemma t_binop_same:
  assumes "nrows a = nrows b" "ncols a = ncols b"
  shows "t_binop f a b = Inr (Tensor (ncols b) (map2 (map2 f) (rows a) (rows b)))"
  using expand_self [of a] expand_self [of b] assms
  by (simp add: t_binop_def broadcast_dim_simps)

lemma t_t_row_tensor: "t_t (row_tensor w) = Tensor 1 (map (\<lambda>x. [x]) w)"
proof -
  have "map (\<lambda>j. [w ! j]) [0..<length w] = map (\<lambda>x. [x]) (map ((!) w) [0..<length w])"
    by simp
  then show ?thesis
    by (simp add: t_t_def row_tensor_def nrows_def map_nth del: map_map)
qed

lemma mm_column:
  assumes "ncols a = length w"
  shows "mm a (Tensor 1 (map (\<lambda>x. [x]) w)) = Inr (Tensor 1 (map (\<lambda>r. [dot r w]) (rows a)))"
  using assms by (simp add: mm_def nrows_def comp_def)

lemma F_linear_row:
  assumes "ncols z = length w"
  shows "F_linear z (row_tensor w) [b] = Inr (Tensor 1 (map (\<lambda>r. [s_add (dot r w) b]) (rows z)))"
proof -
  have "t_binop s_add (Tensor 1 (map (\<lambda>r. [dot r w]) (rows z))) (row_tensor [b])
          = Inr (Tensor (length [b]) (map (\<lambda>r. map2 s_add r [b]) (rows (Tensor 1 (map (\<lambda>r. [dot r w]) (rows z))))))"
    by (rule t_binop_row) simp
  then have "t_add (Tensor 1 (map (\<lambda>r. [dot r w]) (rows z))) (row_tensor [b])
          = Inr (Tensor 1 (map (\<lambda>r. [s_add (dot r w) b]) (rows z)))"
    by (simp add: t_add_def comp_def)
  moreover have "mm z (t_t (row_tensor w)) = Inr (Tensor 1 (map (\<lambda>r. [dot r w]) (rows z)))"
    using assms by (simp only: t_t_row_tensor mm_column)
  ultimately show ?thesis
    using assms by (simp add: F_linear_def row_tensor_shape)
qed

lemma s_mul_commute: "s_mul a b = s_mul b a"
  by (cases a; cases b) (simp_all add: s_mul_def)

lemma dot_commute: "dot xs ys = dot ys xs"
proof -
  have "map2 s_mul xs ys = map2 s_mul ys xs"
  proof (induction xs arbitrary: ys)
    case Nil
    then show ?case by simp
  next
    case (Cons x xs)
    then show ?case by (cases ys) (simp_all add: s_mul_commute)
  qed
  then show ?thesis by (simp add: dot_def)
qed

lemma map2_map_same: "map2 f xs (map g xs) = map (\<lambda>x. f x (g x)) xs"
  by (induction xs) auto

lemma map2_map_right: "map2 f xs (map g ys) = map2 (\<lambda>x y. f x (g y)) xs ys"
proof (induction xs arbitrary: ys)
  case Nil
  then show ?case by simp
next
  case (Cons x xs)
  then show ?case by (cases ys) simp_all
qed

lemma unsqueeze1_alt: "Tensor 1 (map (\<lambda>r. [g r]) xs) = unsqueeze1 (map g xs)"
  by (simp add: unsqueeze1_def comp_def)

lemma t_map_unsqueeze1: "t_map f (unsqueeze1 xs) = unsqueeze1 (map f xs)"
  by (simp add: t_map_def unsqueeze1_def comp_def)

lemma PlanarFlow_call_rows:
  assumes "ncols z = length (weight f)" "length (scale f) = length (weight f)"
  shows "PlanarFlow_call f z =
           Inr (Tensor (ncols z) (map (spec_planar_forward (weight f) (scale f) (bias f)) (rows z)))"
proof -
  let ?g = "\<lambda>r. s_tanh (s_add (dot r (weight f)) (bias f))"
  have l: "F_linear z (row_tensor (weight f)) [bias f]
             = Inr (unsqueeze1 (map (\<lambda>r. s_add (dot r (weight f)) (bias f)) (rows z)))"
    using assms(1) by (simp only: F_linear_row unsqueeze1_alt)
  have m: "t_mul (row_tensor (scale f)) (unsqueeze1 (map ?g (rows z)))
             = Inr (Tensor (length (scale f)) (map (\<lambda>r. map (\<lambda>a. s_mul a (?g r)) (scale f)) (rows z)))"
    unfolding t_mul_def by (simp only: t_binop_row_column map_map comp_def)
  have a: "t_add z (Tensor (length (scale f)) (map (\<lambda>r. map (\<lambda>a. s_mul a (?g r)) (scale f)) (rows z)))
             = Inr (Tensor (ncols z) (map (\<lambda>r. map2 s_add r (map (\<lambda>a. s_mul a (?g r)) (scale f))) (rows z)))"
    unfolding t_add_def using assms
    by (subst t_binop_same) (simp_all add: nrows_def map2_map_same)
  have e: "(\<lambda>r. map2 s_add r (map (\<lambda>a. s_mul a (?g r)) (scale f)))
             = spec_planar_forward (weight f) (scale f) (bias f)"
    by (rule ext) (simp only: spec_planar_forward_def map2_map_right dot_commute [of "weight f"])
  show ?thesis
    unfolding PlanarFlow_call_def l bindE_simps t_map_unsqueeze1 map_map comp_def m a e ..
qed

lemma PlanarFlow_log_abs_det_jacobian_rows:
  assumes "ncols z = length (weight f)" "length (scale f) = length (weight f)"
  shows "PlanarFlow_log_abs_det_jacobian f z =
           Inr (unsqueeze1 (map (spec_planar_log_det (weight f) (scale f) (bias f)) (rows z)))"
proof -
  let ?c = "\<lambda>r. s_sub (Finite 1) (s_pow (s_tanh (s_add (dot r (weight f)) (bias f))) 2)"
  have l: "F_linear z (row_tensor (weight f)) [bias f]
             = Inr (unsqueeze1 (map (\<lambda>r. s_add (dot r (weight f)) (bias f)) (rows z)))"
    using assms(1) by (simp only: F_linear_row unsqueeze1_alt)
  have p: "t_mul (unsqueeze1 (map ?c (rows z))) (row_tensor (weight f))
             = Inr (Tensor (length (weight f)) (map (\<lambda>r. map (s_mul (?c r)) (weight f)) (rows z)))"
    unfolding t_mul_def by (simp only: t_binop_column_row map_map comp_def)
  have m: "mm (Tensor (length (weight f)) (map (\<lambda>r. map (s_mul (?c r)) (weight f)) (rows z)))
              (t_t (row_tensor (scale f)))
             = Inr (unsqueeze1 (map (\<lambda>r. dot (map (s_mul (?c r)) (weight f)) (scale f)) (rows z)))"
    unfolding t_t_row_tensor using assms(2)
    by (subst mm_column) (simp_all add: unsqueeze1_def comp_def)
  have e: "(\<lambda>r. s_log (s_add (s_abs (s_add (Finite 1) (dot (map (s_mul (?c r)) (weight f)) (scale f))))
                   (Finite eps_guard)))
             = spec_planar_log_det (weight f) (scale f) (bias f)"
    by (rule ext) (simp only: spec_planar_log_det_def Let_def dot_commute [of "weight f"])
  show ?thesis
    unfolding PlanarFlow_log_abs_det_jacobian_def l bindE_simps t_map_unsqueeze1 map_map comp_def
      p m Let_def e ..
qed

lemma s_sum_simps [simp]: "s_sum [] = Finite 0" "s_sum (x # xs) = s_add x (s_sum xs)"
  by (simp_all add: s_sum_def)

lemma map2_replicate_rows:
  assumes "\<forall>r\<in>set rs. length (k r) = D"
  shows "map2 (map2 f) (map (replicate D) (map g rs)) (map k rs) = map (\<lambda>r. map (f (g r)) (k r)) rs"
  using assms
proof (induction rs)
  case Nil
  then show ?case by simp
next
  case (Cons r rs)
  have "map2 f (replicate (length (k r)) (g r)) (k r) = map (f (g r)) (k r)"
    by (rule map2_replicate_left)
  with Cons show ?case by simp
qed

text \<open>shape (B, 1) with shape (B, D)\<close>
lemma t_binop_column_full:
  assumes "\<forall>r\<in>set rs. length (k r) = D"
  shows "t_binop f (unsqueeze1 (map g rs)) (Tensor D (map k rs))
           = Inr (Tensor D (map (\<lambda>r. map (f (g r)) (k r)) rs))"
proof (rule t_binop_expand)
  show "broadcast_dim (nrows (unsqueeze1 (map g rs))) (nrows (Tensor D (map k rs))) = Inr (length rs)"
    by (simp add: unsqueeze1_def nrows_def broadcast_dim_simps)
  show "broadcast_dim (ncols (unsqueeze1 (map g rs))) (ncols (Tensor D (map k rs))) = Inr D"
    by (simp add: unsqueeze1_def broadcast_dim_def)
  have a: "expand (length rs) D (unsqueeze1 (map g rs)) = map (replicate D) (map g rs)"
    using expand_column [of "map g rs" D] by (simp add: unsqueeze1_def)
  have b: "expand (length rs) D (Tensor D (map k rs)) = map k rs"
    using expand_self [of "Tensor D (map k rs)"] by (simp add: nrows_def)
  show "map2 (map2 f) (expand (length rs) D (unsqueeze1 (map g rs)))
          (expand (length rs) D (Tensor D (map k rs))) = map (\<lambda>r. map (f (g r)) (k r)) rs"
    unfolding a b using assms by (rule map2_replicate_rows)
qed

lemma map2_map_map: "map2 h (map k rs) (map l rs) = map (\<lambda>r. h (k r) (l r)) rs"
  by (induction rs) auto

text \<open>equal shapes, both tensors given row by row\<close>
lemma t_binop_full_full:
  "t_binop f (Tensor D (map k rs)) (Tensor D (map l rs))
     = Inr (Tensor D (map (\<lambda>r. map2 f (k r) (l r)) rs))"
  by (subst t_binop_same) (simp_all add: nrows_def map2_map_map)

text \<open>shape (B, 1) with shape (B, 1)\<close>
lemma t_binop_columns:
  "t_binop f (unsqueeze1 (map g rs)) (unsqueeze1 (map h rs))
     = Inr (unsqueeze1 (map (\<lambda>r. f (g r) (h r)) rs))"
  unfolding unsqueeze1_def
  by (subst t_binop_same) (simp_all add: nrows_def map2_map_map comp_def)

lemma tensor_rows_id: "z = Tensor (ncols z) (map (\<lambda>r. r) (rows z))"
  by simp

lemma radial_r_tensor:
  assumes "ncols z = length c"
  shows "t_sub z (row_tensor c) = Inr (Tensor (length c) (map (\<lambda>r. map2 s_sub r c) (rows z)))"
    and "norm_dim1 (Tensor (length c) (map (\<lambda>r. map2 s_sub r c) (rows z))) = map (spec_radial_r c) (rows z)"
  using assms by (simp_all add: t_sub_def t_binop_row norm_dim1_def spec_radial_r_def)

lemma s_div_minus_one: "s_div (Finite (- 1)) x = s_neg (s_div (Finite 1) x)"
  by (cases x) (simp_all add: s_neg_def)

lemma map2_displace:
  "length r = length c \<Longrightarrow>
     map2 f r (map g (map2 h r c)) = map2 (\<lambda>x y. f x (g (h x y))) r c"
  by (induction r c rule: list_induct2) auto

lemma RadialFlow_call_rows:
  assumes "wf_tensor z" "ncols z = length (z0 f)"
  shows "RadialFlow_call f z =
           Inr (Tensor (ncols z) (map (radial_call_row (z0 f) (alpha f) (beta f)) (rows z)))"
proof -
  let ?D = "length (z0 f)"
  let ?d = "\<lambda>r. map2 (\<lambda>x y. range32 (s_sub x y)) r (z0 f)"
  let ?R = "radial_r32 (z0 f)"
  let ?AR = "\<lambda>r. range32 (s_add (alpha f) (?R r))"
  let ?H = "\<lambda>r. range32 (s_div (Finite 1) (?AR r))"
  let ?bh = "\<lambda>r. range32 (s_mul (beta f) (?H r))"
  have len: "\<forall>r\<in>set (rows z). length r = ?D"
    using assms by (simp add: wf_tensor_def list_all_iff)
  then have lend: "\<forall>r\<in>set (rows z). length (?d r) = ?D"
    by simp
  have sub: "t_sub32 z (row_tensor (z0 f)) = Inr (Tensor ?D (map ?d (rows z)))"
    unfolding t_sub32_def using assms(2) by (rule t_binop_row)
  have nrm: "map range32 (norm_dim1 (Tensor ?D (map ?d (rows z)))) = map ?R (rows z)"
    by (simp add: norm_dim1_def radial_r32_def)
  have ar: "t_add32 (row_tensor [alpha f]) (unsqueeze1 (map ?R (rows z)))
              = Inr (unsqueeze1 (map ?AR (rows z)))"
    by (simp add: t_add32_def t_binop_one_column comp_def)
  have h: "t_map (\<lambda>x. range32 (s_div (Finite 1) x)) (unsqueeze1 (map ?AR (rows z)))
              = unsqueeze1 (map ?H (rows z))"
    by (simp add: t_map_unsqueeze1 comp_def)
  have bh: "t_mul32 (row_tensor [beta f]) (unsqueeze1 (map ?H (rows z)))
              = Inr (unsqueeze1 (map ?bh (rows z)))"
    by (simp add: t_mul32_def t_binop_one_column comp_def)
  have m: "t_mul32 (unsqueeze1 (map ?bh (rows z))) (Tensor ?D (map ?d (rows z)))
              = Inr (Tensor ?D (map (\<lambda>r. map (\<lambda>y. range32 (s_mul (?bh r) y)) (?d r)) (rows z)))"
    unfolding t_mul32_def using lend by (rule t_binop_column_full)
  have "t_add32 (Tensor ?D (map (\<lambda>r. r) (rows z)))
           (Tensor ?D (map (\<lambda>r. map (\<lambda>y. range32 (s_mul (?bh r) y)) (?d r)) (rows z)))
          = Inr (Tensor ?D (map (\<lambda>r. map2 (\<lambda>x y. range32 (s_add x y)) r
                                       (map (\<lambda>y. range32 (s_mul (?bh r) y)) (?d r))) (rows z)))"
    unfolding t_add32_def by (rule t_binop_full_full)
  then have a: "t_add32 z (Tensor ?D (map (\<lambda>r. map (\<lambda>y. range32 (s_mul (?bh r) y)) (?d r)) (rows z)))
          = Inr (Tensor ?D (map (\<lambda>r. map2 (\<lambda>x y. range32 (s_add x y)) r
                                       (map (\<lambda>y. range32 (s_mul (?bh r) y)) (?d r))) (rows z)))"
    using assms(2) tensor_rows_id [of z] by simp
  have e: "map (\<lambda>r. map2 (\<lambda>x y. range32 (s_add x y)) r
                     (map (\<lambda>y. range32 (s_mul (?bh r) y)) (?d r))) (rows z)
             = map (radial_call_row (z0 f) (alpha f) (beta f)) (rows z)"
  proof (rule map_cong [OF refl])
    fix r assume "r \<in> set (rows z)"
    then have "length r = length (z0 f)" using len by simp
    then show "map2 (\<lambda>x y. range32 (s_add x y)) r (map (\<lambda>y. range32 (s_mul (?bh r) y)) (?d r))
                 = radial_call_row (z0 f) (alpha f) (beta f) r"
      by (simp only: radial_call_row_def Let_def map2_displace)
  qed
  show ?thesis
    unfolding RadialFlow_call_def sub bindE_simps Let_def nrm ar h bh m a e
    using assms(2) by simp
qed

lemma RadialFlow_log_abs_det_jacobian_rows:
  assumes "ncols z = length (z0 f)"
  shows "RadialFlow_log_abs_det_jacobian f z =
           Inr (unsqueeze1 (map (spec_radial_log_det (z0 f) (alpha f) (beta f) (dim f)) (rows z)))"
proof -
  let ?R = "spec_radial_r (z0 f)"
  let ?AR = "\<lambda>r. s_add (alpha f) (?R r)"
  let ?BH = "\<lambda>r. s_mul (beta f) (s_div (Finite 1) (?AR r))"
  let ?BHP = "\<lambda>r. s_mul (beta f) (s_div (Finite (- 1)) (s_pow (?AR r) 2))"
  let ?P = "\<lambda>r. s_sub (s_pow (s_add (Finite 1) (?BH r)) (dim f)) (Finite 1)"
  let ?Q = "\<lambda>r. s_add (s_add (Finite 1) (?BH r)) (s_mul (?BHP r) (?R r))"
  let ?L = "\<lambda>x. s_log (s_add (s_abs x) (Finite eps_guard))"
  have ar: "t_add (row_tensor [alpha f]) (unsqueeze1 (map ?R (rows z)))
              = Inr (unsqueeze1 (map ?AR (rows z)))"
    by (simp add: t_add_def t_binop_one_column comp_def)
  have bh: "t_mul (row_tensor [beta f]) (unsqueeze1 (map (s_div (Finite 1)) (map ?AR (rows z))))
              = Inr (unsqueeze1 (map ?BH (rows z)))"
    by (simp add: t_mul_def t_binop_one_column comp_def)
  have bhp: "t_mul (row_tensor [beta f])
                (unsqueeze1 (map (\<lambda>x. s_div (Finite (- 1)) (s_pow x 2)) (map ?AR (rows z))))
              = Inr (unsqueeze1 (map ?BHP (rows z)))"
    by (simp add: t_mul_def t_binop_one_column comp_def)
  have bhpr: "t_mul (unsqueeze1 (map ?BHP (rows z))) (unsqueeze1 (map ?R (rows z)))
              = Inr (unsqueeze1 (map (\<lambda>r. s_mul (?BHP r) (?R r)) (rows z)))"
    unfolding t_mul_def by (rule t_binop_columns)
  have q: "t_add (unsqueeze1 (map (s_add (Finite 1)) (map ?BH (rows z))))
                 (unsqueeze1 (map (\<lambda>r. s_mul (?BHP r) (?R r)) (rows z)))
              = Inr (unsqueeze1 (map ?Q (rows z)))"
    unfolding t_add_def map_map comp_def by (rule t_binop_columns)
  have det: "t_mul (unsqueeze1 (map (\<lambda>x. s_sub (s_pow (s_add (Finite 1) x) (dim f)) (Finite 1))
                                  (map ?BH (rows z))))
                   (unsqueeze1 (map ?Q (rows z)))
              = Inr (unsqueeze1 (map (\<lambda>r. s_mul (?P r) (?Q r)) (rows z)))"
    unfolding t_mul_def map_map comp_def by (rule t_binop_columns)
  have e: "map ?L (map (\<lambda>r. s_mul (?P r) (?Q r)) (rows z))
             = map (spec_radial_log_det (z0 f) (alpha f) (beta f) (dim f)) (rows z)"
    by (simp add: spec_radial_log_det_def Let_def s_div_minus_one)
  show ?thesis
    unfolding RadialFlow_log_abs_det_jacobian_def radial_r_tensor [OF assms] bindE_simps Let_def ar
      t_map_unsqueeze1 bh bhp bhpr q det e ..
qed

lemma float32_max_nonneg [simp]: "0 \<le> float32_max"
  by (simp add: float32_max_def)




section \<open>Shapes and the loop of forward\<close>

lemma wf_tensorI: "(\<And>r. r \<in> set rs \<Longrightarrow> length r = D) \<Longrightarrow> wf_tensor (Tensor D rs)"
  by (simp add: wf_tensor_def list_all_iff)

lemma unsqueeze1_shape:
  "wf_tensor (unsqueeze1 xs)" "ncols (unsqueeze1 xs) = 1" "nrows (unsqueeze1 xs) = length xs"
  by (auto simp add: unsqueeze1_def nrows_def intro!: wf_tensorI)

lemma flow_call_shape:
  assumes "wf_tensor z" "has_dim b (ncols z)"
  shows "\<exists>z'. flow_call b z = Inr z' \<and> wf_tensor z' \<and> nrows z' = nrows z \<and> ncols z' = ncols z"
proof (cases b)
  case (Planar f)
  with assms have d: "ncols z = length (weight f)" "length (scale f) = length (weight f)"
    by simp_all
  have "\<forall>r\<in>set (rows z). length r = ncols z"
    using assms(1) by (simp add: wf_tensor_def list_all_iff)
  then have "wf_tensor (Tensor (ncols z) (map (spec_planar_forward (weight f) (scale f) (bias f)) (rows z)))"
    using d by (auto intro!: wf_tensorI simp add: spec_planar_forward_def)
  then show ?thesis
    using Planar PlanarFlow_call_rows [OF d] by (simp add: nrows_def)
next
  case (Radial f)
  with assms have d: "ncols z = length (z0 f)"
    by simp
  have "\<forall>r\<in>set (rows z). length r = ncols z"
    using assms(1) by (simp add: wf_tensor_def list_all_iff)
  then have "wf_tensor (Tensor (ncols z) (map (radial_call_row (z0 f) (alpha f) (beta f)) (rows z)))"
    using d by (auto intro!: wf_tensorI simp add: radial_call_row_def Let_def)
  then show ?thesis
    using Radial RadialFlow_call_rows [OF assms(1) d] by (simp add: nrows_def)
qed

lemma flow_log_abs_det_jacobian_shape:
  assumes "has_dim b (ncols z)"
  shows "\<exists>ld. flow_log_abs_det_jacobian b z = Inr ld \<and> wf_tensor ld \<and> nrows ld = nrows z \<and> ncols ld = 1"
proof (cases b)
  case (Planar f)
  with assms have d: "ncols z = length (weight f)" "length (scale f) = length (weight f)"
    by simp_all
  show ?thesis
    using Planar PlanarFlow_log_abs_det_jacobian_rows [OF d] by (simp add: unsqueeze1_shape) (simp add: nrows_def)
next
  case (Radial f)
  with assms have d: "ncols z = length (z0 f)"
    by simp
  show ?thesis
    using Radial RadialFlow_log_abs_det_jacobian_rows [OF d] by (simp add: unsqueeze1_shape) (simp add: nrows_def)
qed

lemma forward_loop_trace:
  assumes "wf_tensor z" "\<forall>b\<in>set bs. has_dim b (ncols z)"
  shows "\<exists>zk lds. forward_loop bs z s = (Inr zk, s\<lparr>log_det := log_det s @ lds\<rparr>)
           \<and> length lds = length bs
           \<and> apply_flows bs z = Inr zk
           \<and> wf_tensor zk \<and> nrows zk = nrows z \<and> ncols zk = ncols z
           \<and> (\<forall>ld\<in>set lds. wf_tensor ld \<and> nrows ld = nrows z \<and> ncols ld = 1)
           \<and> (\<forall>i<length bs. \<exists>zi. apply_flows (take i bs) z = Inr zi
                  \<and> flow_log_abs_det_jacobian (bs ! i) zi = Inr (lds ! i))"
  using assms
proof (induction bs arbitrary: z s)
  case Nil
  then show ?case by simp
next
  case (Cons b bs)
  from Cons.prems have hb: "has_dim b (ncols z)" by simp
  obtain ld where ld: "flow_log_abs_det_jacobian b z = Inr ld" "wf_tensor ld" "nrows ld = nrows z" "ncols ld = 1"
    using flow_log_abs_det_jacobian_shape [OF hb] by blast
  obtain z' where z': "flow_call b z = Inr z'" "wf_tensor z'" "nrows z' = nrows z" "ncols z' = ncols z"
    using flow_call_shape [OF Cons.prems(1) hb] by blast
  have "\<forall>b\<in>set bs. has_dim b (ncols z')"
    using Cons.prems(2) z'(4) by simp
  from Cons.IH [OF z'(2) this, of "s\<lparr>log_det := log_det s @ [ld]\<rparr>"]
  obtain zk lds where r:
    "forward_loop bs z' (s\<lparr>log_det := log_det s @ [ld]\<rparr>)
       = (Inr zk, s\<lparr>log_det := log_det s @ [ld]\<rparr>\<lparr>log_det := log_det (s\<lparr>log_det := log_det s @ [ld]\<rparr>) @ lds\<rparr>)"
    "length lds = length bs" "apply_flows bs z' = Inr zk"
    "wf_tensor zk" "nrows zk = nrows z'" "ncols zk = ncols z'"
    "\<forall>ld\<in>set lds. wf_tensor ld \<and> nrows ld = nrows z' \<and> ncols ld = 1"
    "\<forall>i<length bs. \<exists>zi. apply_flows (take i bs) z' = Inr zi
        \<and> flow_log_abs_det_jacobian (bs ! i) zi = Inr (lds ! i)"
    by blast
  have idx: "\<forall>i<length (b # bs). \<exists>zi. apply_flows (take i (b # bs)) z = Inr zi
        \<and> flow_log_abs_det_jacobian ((b # bs) ! i) zi = Inr ((ld # lds) ! i)"
  proof (intro allI impI)
    fix i assume i: "i < length (b # bs)"
    show "\<exists>zi. apply_flows (take i (b # bs)) z = Inr zi
        \<and> flow_log_abs_det_jacobian ((b # bs) ! i) zi = Inr ((ld # lds) ! i)"
    proof (cases i)
      case 0
      then show ?thesis using ld(1) by simp
    next
      case (Suc j)
      with i have "j < length bs" by simp
      with r(8) obtain zi where "apply_flows (take j bs) z' = Inr zi"
        "flow_log_abs_det_jacobian (bs ! j) zi = Inr (lds ! j)" by blast
      then show ?thesis using Suc z'(1) by simp
    qed
  qed
  have "forward_loop (b # bs) z s = (Inr zk, s\<lparr>log_det := log_det s @ (ld # lds)\<rparr>)"
    using ld(1) z'(1) r(1) by simp
  moreover have "apply_flows (b # bs) z = Inr zk"
    using z'(1) r(3) by simp
  moreover have "\<forall>l\<in>set (ld # lds). wf_tensor l \<and> nrows l = nrows z \<and> ncols l = 1"
    using ld r(7) z'(3) by simp
  ultimately show ?case
    using r(2,4,5,6) z'(3,4) idx by (intro exI [of _ zk] exI [of _ "ld # lds"]) simp
qed

lemma NormalizingFlow_forward_ok:
  assumes "wf_tensor z" and "\<forall>b\<in>set (bijectors s). has_dim b (ncols z)"
  shows "\<exists>zk lds. NormalizingFlow_forward s z = (Inr (zk, lds), s\<lparr>log_det := lds\<rparr>)
           \<and> length lds = length (bijectors s)
           \<and> apply_flows (bijectors s) z = Inr zk
           \<and> wf_tensor zk \<and> nrows zk = nrows z \<and> ncols zk = ncols z
           \<and> (\<forall>ld\<in>set lds. wf_tensor ld \<and> nrows ld = nrows z \<and> ncols ld = 1)
           \<and> (\<forall>i<length (bijectors s). \<exists>zi. apply_flows (take i (bijectors s)) z = Inr zi
                  \<and> flow_log_abs_det_jacobian (bijectors s ! i) zi = Inr (lds ! i))"
proof -
  obtain zk lds where r:
    "forward_loop (bijectors s) z (s\<lparr>log_det := []\<rparr>)
       = (Inr zk, s\<lparr>log_det := []\<rparr>\<lparr>log_det := log_det (s\<lparr>log_det := []\<rparr>) @ lds\<rparr>)"
    "length lds = length (bijectors s)" "apply_flows (bijectors s) z = Inr zk"
    "wf_tensor zk" "nrows zk = nrows z" "ncols zk = ncols z"
    "\<forall>ld\<in>set lds. wf_tensor ld \<and> nrows ld = nrows z \<and> ncols ld = 1"
    "\<forall>i<length (bijectors s). \<exists>zi. apply_flows (take i (bijectors s)) z = Inr zi
        \<and> flow_log_abs_det_jacobian (bijectors s ! i) zi = Inr (lds ! i)"
    using forward_loop_trace [OF assms, of "s\<lparr>log_det := []\<rparr>"] by blast
  have "NormalizingFlow_forward s z = (Inr (zk, lds), s\<lparr>log_det := lds\<rparr>)"
    using r(1) by (simp add: NormalizingFlow_forward_def)
  then show ?thesis
    using r(2-8) by blast
qed

lemma forward_loop_frame:
  "\<exists>lds. snd (forward_loop bs z s) = s\<lparr>log_det := log_det s @ lds\<rparr> \<and> length lds \<le> length bs"
proof (induction bs arbitrary: z s)
  case Nil
  show ?case by (intro exI [of _ "[]"]) simp
next
  case (Cons b bs)
  show ?case
  proof (cases "flow_log_abs_det_jacobian b z")
    case (Inl e)
    then have "snd (forward_loop (b # bs) z s) = s\<lparr>log_det := log_det s @ []\<rparr>"
      by simp
    then show ?thesis by (intro exI [of _ "[]"]) simp
  next
    case (Inr ld)
    show ?thesis
    proof (cases "flow_call b z")
      case (Inl e)
      then have "snd (forward_loop (b # bs) z s) = s\<lparr>log_det := log_det s @ [ld]\<rparr>"
        using Inr by simp
      then show ?thesis by (intro exI [of _ "[ld]"]) simp
    next
      case z': (Inr z')
      obtain lds where l: "snd (forward_loop bs z' (s\<lparr>log_det := log_det s @ [ld]\<rparr>))
            = s\<lparr>log_det := log_det s @ [ld]\<rparr>\<lparr>log_det := log_det (s\<lparr>log_det := log_det s @ [ld]\<rparr>) @ lds\<rparr>"
        "length lds \<le> length bs"
        using Cons.IH [of z' "s\<lparr>log_det := log_det s @ [ld]\<rparr>"] by blast
      have "snd (forward_loop (b # bs) z s) = s\<lparr>log_det := log_det s @ (ld # lds)\<rparr>"
        using Inr z' l(1) by simp
      then show ?thesis using l(2) by (intro exI [of _ "ld # lds"]) simp
    qed
  qed
qed

lemma NormalizingFlow_forward_frame:
  "\<exists>lds. snd (NormalizingFlow_forward s z) = s\<lparr>log_det := lds\<rparr> \<and> length lds \<le> length (bijectors s)
      \<and> (\<forall>zk l. fst (NormalizingFlow_forward s z) = Inr (zk, l) \<longrightarrow> l = lds)"
proof -
  obtain lds where l: "snd (forward_loop (bijectors s) z (s\<lparr>log_det := []\<rparr>))
       = s\<lparr>log_det := []\<rparr>\<lparr>log_det := log_det (s\<lparr>log_det := []\<rparr>) @ lds\<rparr>"
      "length lds \<le> length (bijectors s)"
    using forward_loop_frame [of "bijectors s" z "s\<lparr>log_det := []\<rparr>"] by blast
  obtain r s' where p: "forward_loop (bijectors s) z (s\<lparr>log_det := []\<rparr>) = (r, s')"
    by (cases "forward_loop (bijectors s) z (s\<lparr>log_det := []\<rparr>)")
  with l(1) have s': "s' = s\<lparr>log_det := lds\<rparr>" by simp
  show ?thesis
    using p s' l(2) by (intro exI [of _ lds]) (cases r; simp add: NormalizingFlow_forward_def)
qed

lemma NormalizingFlow_forward_fresh:
  "NormalizingFlow_forward (s\<lparr>log_det := old\<rparr>) z = NormalizingFlow_forward s z"
  by (simp add: NormalizingFlow_forward_def)

section \<open>Construction\<close>

lemma alloc_simps:
  "0 \<le> d \<Longrightarrow> d < 2 ^ 63 \<Longrightarrow> alloc d = Inr (nat d)"
  "d < 0 \<Longrightarrow> alloc d = Inl NegativeDimension"
  by (simp_all add: alloc_def)

lemma PlanarFlow_init_ok:
  assumes "0 \<le> d" "d < 2 ^ 63"
  shows "\<exists>f g'. PlanarFlow_init d g = Inr (f, g') \<and> length (weight f) = nat d \<and> length (scale f) = nat d"
  using assms by (simp add: PlanarFlow_init_def alloc_simps(1) uniform_def)

lemma RadialFlow_init_ok:
  assumes "0 \<le> d" "d < 2 ^ 63"
  shows "\<exists>f g'. RadialFlow_init d g = Inr (f, g') \<and> length (z0 f) = nat d \<and> dim f = d"
  using assms by (simp add: RadialFlow_init_def alloc_simps(1) uniform_def)

lemma block_init_ok:
  assumes "0 \<le> d" "d < 2 ^ 63"
  shows "\<exists>f g'. block_init b d g = Inr (f, g') \<and> flow_class f = b \<and> has_dim f (nat d)"
proof (cases b)
  case PlanarFlowClass
  obtain f g' where "PlanarFlow_init d g = Inr (f, g')" "length (weight f) = nat d" "length (scale f) = nat d"
    using PlanarFlow_init_ok [OF assms] by blast
  then show ?thesis using PlanarFlowClass by simp
next
  case RadialFlowClass
  obtain f g' where "RadialFlow_init d g = Inr (f, g')" "length (z0 f) = nat d"
    using RadialFlow_init_ok [OF assms] by blast
  then show ?thesis using RadialFlowClass by simp
qed

lemma init_blocks_ok:
  assumes "0 \<le> d" "d < 2 ^ 63"
  shows "\<exists>fs g'. init_blocks bs d biject g = Inr (biject @ fs, g')
           \<and> map flow_class fs = bs \<and> (\<forall>f\<in>set fs. has_dim f (nat d))"
proof (induction bs arbitrary: biject g)
  case Nil
  show ?case by simp
next
  case (Cons b bs)
  obtain f g1 where f: "block_init b d g = Inr (f, g1)" "flow_class f = b" "has_dim f (nat d)"
    using block_init_ok [OF assms] by blast
  obtain fs g2 where fs: "init_blocks bs d (biject @ [f]) g1 = Inr ((biject @ [f]) @ fs, g2)"
    "map flow_class fs = bs" "\<forall>f\<in>set fs. has_dim f (nat d)"
    using Cons.IH by blast
  have "init_blocks (b # bs) d biject g = Inr (biject @ (f # fs), g2)"
    using f(1) fs(1) by simp
  then show ?case
    using f(2,3) fs(2,3) by (intro exI [of _ "f # fs"] exI [of _ g2]) simp
qed

lemma init_repeat_ok:
  assumes "0 \<le> d" "d < 2 ^ 63"
  shows "\<exists>fs g'. init_repeat n bs d biject g = Inr (biject @ fs, g')
           \<and> map flow_class fs = concat (replicate n bs) \<and> (\<forall>f\<in>set fs. has_dim f (nat d))"
proof (induction n arbitrary: biject g)
  case 0
  show ?case by simp
next
  case (Suc n)
  obtain fs g1 where fs: "init_blocks bs d biject g = Inr (biject @ fs, g1)"
    "map flow_class fs = bs" "\<forall>f\<in>set fs. has_dim f (nat d)"
    using init_blocks_ok [OF assms] by blast
  obtain fs' g2 where fs': "init_repeat n bs d (biject @ fs) g1 = Inr ((biject @ fs) @ fs', g2)"
    "map flow_class fs' = concat (replicate n bs)" "\<forall>f\<in>set fs'. has_dim f (nat d)"
    using Suc.IH by blast
  have "init_repeat (Suc n) bs d biject g = Inr (biject @ (fs @ fs'), g2)"
    using fs(1) fs'(1) by simp
  then show ?case
    using fs(2,3) fs'(2,3) by (intro exI [of _ "fs @ fs'"] exI [of _ g2]) auto
qed

lemma length_concat_replicate: "length (concat (replicate n xs)) = n * length xs"
  by (induction n) simp_all

lemma NormalizingFlow_init_no_flow:
  assumes "0 \<le> d" "d < 2 ^ 63" "nat flow_length * length blocks = 0"
  shows "\<exists>s g'. NormalizingFlow_init d blocks flow_length density g = Inr (s, g')
           \<and> bijectors s = [] \<and> log_det s = []"
proof -
  obtain fs g' where fs: "init_repeat (nat flow_length) blocks d [] g = Inr ([] @ fs, g')"
    "map flow_class fs = concat (replicate (nat flow_length) blocks)"
    using init_repeat_ok [OF assms(1,2)] by blast
  have "length (map flow_class fs) = nat flow_length * length blocks"
    unfolding fs(2) by (rule length_concat_replicate)
  then have "fs = []"
    using assms(3) by simp
  then show ?thesis
    using fs(1) by (simp add: NormalizingFlow_init_def TransformedDistribution_def)
qed

lemma NormalizingFlow_init_some_flow:
  assumes "0 \<le> d" "d < 2 ^ 63" "0 < nat flow_length * length blocks"
  shows "NormalizingFlow_init d blocks flow_length density g = Inl AttributeError"
proof -
  obtain fs g' where fs: "init_repeat (nat flow_length) blocks d [] g = Inr ([] @ fs, g')"
    "map flow_class fs = concat (replicate (nat flow_length) blocks)"
    using init_repeat_ok [OF assms(1,2)] by blast
  have "length (map flow_class fs) = nat flow_length * length blocks"
    unfolding fs(2) by (rule length_concat_replicate)
  then have "fs \<noteq> []"
    using assms(3) by auto
  then show ?thesis
    using fs(1) by (simp add: NormalizingFlow_init_def TransformedDistribution_def)
qed

section \<open>The fixtures evaluated\<close>

lemma fixture_batch_wf: "wf_tensor fixture_batch" "ncols fixture_batch = 2" "nrows fixture_batch = 1"
  by (simp_all add: fixture_batch_def wf_tensor_def nrows_def)

lemma fixture_planar_eval:
  "PlanarFlow_call fixture_planar fixture_batch = Inr fixture_batch"
  "PlanarFlow_log_abs_det_jacobian fixture_planar fixture_batch
     = Inr (Tensor 1 [[Finite (ln (2 + 1 / 10 ^ 9))]])"
proof -
  have d: "ncols fixture_batch = length (weight fixture_planar)"
    "length (scale fixture_planar) = length (weight fixture_planar)"
    by (simp_all add: fixture_batch_def fixture_planar_def)
  show "PlanarFlow_call fixture_planar fixture_batch = Inr fixture_batch"
    unfolding PlanarFlow_call_rows [OF d]
    by (simp add: fixture_batch_def fixture_planar_def spec_planar_forward_def dot_def s_add_def
        s_mul_def s_tanh_def)
  show "PlanarFlow_log_abs_det_jacobian fixture_planar fixture_batch
          = Inr (Tensor 1 [[Finite (ln (2 + 1 / 10 ^ 9))]])"
    unfolding PlanarFlow_log_abs_det_jacobian_rows [OF d]
    by (simp add: fixture_batch_def fixture_planar_def unsqueeze1_def spec_planar_log_det_def dot_def
        s_add_def s_mul_def s_sub_def s_pow_def s_tanh_def s_abs_def eps_guard_def)
qed

lemma fixture_radial_eval:
  "RadialFlow_call fixture_radial fixture_batch = Inr fixture_batch"
  "RadialFlow_log_abs_det_jacobian fixture_radial fixture_batch
     = Inr (Tensor 1 [[Finite (ln (6 + 1 / 10 ^ 9))]])"
proof -
  have d: "ncols fixture_batch = length (z0 fixture_radial)"
    by (simp add: fixture_batch_def fixture_radial_def)
  show "RadialFlow_call fixture_radial fixture_batch = Inr fixture_batch"
    unfolding RadialFlow_call_rows [OF fixture_batch_wf(1) d]
    by (simp add: fixture_batch_def fixture_radial_def radial_call_row_def radial_r32_def
        s_add_def s_mul_def s_sub_def float32_max_def)
  show "RadialFlow_log_abs_det_jacobian fixture_radial fixture_batch
          = Inr (Tensor 1 [[Finite (ln (6 + 1 / 10 ^ 9))]])"
    unfolding RadialFlow_log_abs_det_jacobian_rows [OF d]
    by (simp add: fixture_batch_def fixture_radial_def unsqueeze1_def spec_radial_log_det_def
        spec_radial_r_def s_add_def s_mul_def s_sub_def s_pow_def s_neg_def s_abs_def eps_guard_def)
qed

lemma fixture_forward:
  "NormalizingFlow_forward fixture_sequence fixture_batch
     = (Inr (fixture_batch,
             [Tensor 1 [[Finite (ln (2 + 1 / 10 ^ 9))]], Tensor 1 [[Finite (ln (6 + 1 / 10 ^ 9))]]]),
        fixture_sequence\<lparr>log_det :=
             [Tensor 1 [[Finite (ln (2 + 1 / 10 ^ 9))]], Tensor 1 [[Finite (ln (6 + 1 / 10 ^ 9))]]]\<rparr>)"
  by (simp add: NormalizingFlow_forward_def fixture_sequence_def fixture_planar_eval fixture_radial_eval)

section \<open>The latent step on tensors given by their elements\<close>

lemma tab_shape: "nrows (tab B D g) = B" "ncols (tab B D g) = D" "wf_tensor (tab B D g)"
  by (simp_all add: tab_def nrows_def wf_tensor_def list_all_iff)

lemma tab_cong:
  assumes "\<And>i j. i < B \<Longrightarrow> j < D \<Longrightarrow> g i j = h i j"
  shows "tab B D g = tab B D h"
  using assms by (simp add: tab_def)

lemma elem_tab: "i < B \<Longrightarrow> j < D \<Longrightarrow> elem (tab B D g) i j = g i j"
  by (simp add: elem_def tab_def)

lemma tensor_as_tab:
  assumes "wf_tensor t"
  shows "t = tab (nrows t) (ncols t) (elem t)"
proof -
  have "rows t = map (\<lambda>i. map (elem t i) [0..<ncols t]) [0..<nrows t]"
  proof (rule nth_equalityI)
    show "length (rows t) = length (map (\<lambda>i. map (elem t i) [0..<ncols t]) [0..<nrows t])"
      by (simp add: nrows_def)
  next
    fix i assume i: "i < length (rows t)"
    then have "length (rows t ! i) = ncols t"
      using assms by (simp add: wf_tensor_def list_all_iff)
    then have "rows t ! i = map (elem t i) [0..<ncols t]"
      by (intro nth_equalityI) (simp_all add: elem_def)
    then show "rows t ! i = map (\<lambda>i. map (elem t i) [0..<ncols t]) [0..<nrows t] ! i"
      using i by (simp add: nrows_def)
  qed
  then have "Tensor (ncols t) (rows t) = tab (nrows t) (ncols t) (elem t)"
    by (simp add: tab_def)
  then show ?thesis by simp
qed

lemma t_binop_tab:
  "t_binop f (tab B D g) (tab B D h) = Inr (tab B D (\<lambda>i j. f (g i j) (h i j)))"
  unfolding tab_def by (simp add: t_binop_full_full map2_map_map)

lemma t_map_tab: "t_map f (tab B D g) = tab B D (\<lambda>i j. f (g i j))"
  by (simp add: t_map_def tab_def)

lemma Normal_sample_tab: "Normal_sample D D n eps = Inr (tab n D (\<lambda>i j. Finite (eps i j)))"
  by (simp add: Normal_sample_def broadcast_dim_simps tab_def)

lemma VAE_latent_tab:
  "VAE_latent x (tab (nrows x) D m, tab (nrows x) D s) eps =
     Inr (tab (nrows x) D (\<lambda>i j. s_add (s_mul (s i j) (Finite (eps i j))) (m i j)),
          s_div (s_mul (Finite (- 0.5))
                   (t_sum (tab (nrows x) D
                      (\<lambda>i j. s_sub (s_sub (s_add (Finite 1) (s i j)) (s_pow (m i j) 2)) (s_exp (s i j))))))
                (Finite (real (nrows x))))"
  by (simp add: VAE_latent_def Let_def tab_shape Normal_sample_tab t_mul_def t_add_def t_sub_def
      t_binop_tab t_map_tab)

lemma VAE_latent_spec:
  assumes "wf_tensor mu" "wf_tensor sigma" "nrows sigma = nrows mu" "ncols sigma = ncols mu"
    "nrows x = nrows mu"
  shows "VAE_latent x (mu, sigma) eps = Inr (spec_reparam mu sigma eps, spec_kl mu sigma (nrows x))"
proof -
  have m: "mu = tab (nrows x) (ncols mu) (elem mu)"
    using tensor_as_tab [OF assms(1)] assms(5) by simp
  have s: "sigma = tab (nrows x) (ncols mu) (elem sigma)"
    using tensor_as_tab [OF assms(2)] assms(3,4,5) by simp
  have "VAE_latent x (tab (nrows x) (ncols mu) (elem mu), tab (nrows x) (ncols mu) (elem sigma)) eps
          = Inr (spec_reparam mu sigma eps, spec_kl mu sigma (nrows x))"
    unfolding VAE_latent_tab spec_reparam_def spec_kl_def using assms(5) by simp
  then show ?thesis
    using m s by simp
qed

lemma s_add_assoc: "s_add (s_add a b) c = s_add a (s_add b c)"
  by (cases a; cases b; cases c) (simp_all add: s_add_def)

lemma s_add_zero_left: "s_add (Finite 0) a = a"
  by (cases a) (simp_all add: s_add_def)

lemma s_sum_append: "s_sum (xs @ ys) = s_add (s_sum xs) (s_sum ys)"
  by (induction xs) (simp_all add: s_add_assoc s_add_zero_left)

lemma t_sum_cat: "t_sum (Tensor c (concat (map rows ts))) = s_sum (map t_sum ts)"
  by (induction ts) (simp_all add: t_sum_def s_sum_append)

lemma cat_columns:
  assumes "ts \<noteq> []" "\<forall>t\<in>set ts. ncols t = 1"
  shows "cat ts = Inr (Tensor 1 (concat (map rows ts)))"
  using assms by (cases ts) (simp_all add: cat_def list_all_iff)

lemma s_mul_square: "s_mul (s_mul (Finite c) z) z = s_mul (Finite c) (s_pow z 2)"
  by (cases z) (simp_all add: s_mul_def s_pow_def power2_eq_square)

lemma s_mul_recip: "s_mul (s_mul d d) (s_recip sg) = s_div (s_pow d 2) sg"
  by (cases sg; cases d) (simp_all add: s_mul_def s_recip_def s_pow_def power2_eq_square)

lemma latent_tail_tab:
  assumes "lds \<noteq> []" "\<forall>t\<in>set lds. ncols t = 1"
  shows
  "bindE (t_mul (t_map (s_mul (Finite (- 0.5))) (tab B D k)) (tab B D k)) (\<lambda>log_p_zk.
   bindE (t_sub (tab B D z) (tab B D m)) (\<lambda>d.
   bindE (t_mul d d) (\<lambda>dd.
   bindE (t_mul dd (t_map s_recip (tab B D sg))) (\<lambda>q1.
   bindE (t_add (t_map s_log (tab B D sg)) q1) (\<lambda>q2.
   let log_q_z0 = t_map (s_mul (Finite (- 0.5))) q2
   in bindE (t_sub log_q_z0 log_p_zk) (\<lambda>diff.
      let logs = t_sum diff
      in bindE (cat lds) (\<lambda>ladj.
         let logs' = s_sub logs (t_sum ladj)
         in Inr (tab B D k, s_div logs' (Finite (real n)))))))))) =
   Inr (tab B D k,
        s_div (s_sub (t_sum (tab B D (\<lambda>i j. s_sub (spec_log_q_z0 (sg i j) (z i j) (m i j))
                                              (spec_log_p_zk (k i j)))))
                     (s_sum (map t_sum lds)))
              (Finite (real n)))"
  by (simp add: t_mul_def t_sub_def t_add_def t_map_tab t_binop_tab Let_def cat_columns [OF assms]
      t_sum_cat s_mul_square s_mul_recip spec_log_p_zk_def spec_log_q_z0_def)

lemma reparam_tab:
  "bindE (Normal_sample D D B eps) (\<lambda>e. bindE (t_mul (tab B D sg) e) (\<lambda>se. t_add se (tab B D m)))
     = Inr (tab B D (\<lambda>i j. s_add (s_mul (sg i j) (Finite (eps i j))) (m i j)))"
  by (simp add: Normal_sample_tab t_mul_def t_add_def t_binop_tab)

lemma VAENormalizingFlow_latent_spec:
  assumes "wf_tensor mu" "wf_tensor sigma" "nrows sigma = nrows mu" "ncols sigma = ncols mu"
    "nrows x = nrows mu" "\<forall>b\<in>set (bijectors fl). has_dim b (ncols mu)" "bijectors fl \<noteq> []"
  shows "\<exists>zk lds. NormalizingFlow_forward fl (spec_reparam mu sigma eps)
                     = (Inr (zk, lds), fl\<lparr>log_det := lds\<rparr>)
           \<and> VAENormalizingFlow_latent fl x (mu, sigma) eps
               = (Inr (zk, s_div (spec_logs mu sigma (spec_reparam mu sigma eps) zk lds)
                                 (Finite (real (nrows x)))),
                  fl\<lparr>log_det := lds\<rparr>)"
proof -
  let ?B = "nrows mu" and ?D = "ncols mu"
  let ?zf = "\<lambda>i j. s_add (s_mul (elem sigma i j) (Finite (eps i j))) (elem mu i j)"
  let ?start = "spec_reparam mu sigma eps"
  have m: "mu = tab ?B ?D (elem mu)"
    using tensor_as_tab [OF assms(1)] .
  have sg: "sigma = tab ?B ?D (elem sigma)"
    using tensor_as_tab [OF assms(2)] assms(3,4) by simp
  have z0: "?start = tab ?B ?D ?zf"
    by (simp add: spec_reparam_def)
  have "bindE (Normal_sample ?D ?D ?B eps)
          (\<lambda>e. bindE (t_mul (tab ?B ?D (elem sigma)) e) (\<lambda>se. t_add se (tab ?B ?D (elem mu))))
          = Inr ?start"
    unfolding z0 by (rule reparam_tab)
  then have draw: "bindE (Normal_sample (ncols mu) (ncols sigma) (nrows x) eps)
          (\<lambda>e. bindE (t_mul sigma e) (\<lambda>se. t_add se mu)) = Inr ?start"
    using m sg assms(4,5) by simp
  have wz: "wf_tensor ?start" "ncols ?start = ?D" "nrows ?start = ?B"
    unfolding z0 by (simp_all add: tab_shape)
  have "\<forall>b\<in>set (bijectors fl). has_dim b (ncols ?start)"
    using assms(6) wz(2) by simp
  from NormalizingFlow_forward_ok [OF wz(1) this]
  obtain zk lds where f:
    "NormalizingFlow_forward fl ?start = (Inr (zk, lds), fl\<lparr>log_det := lds\<rparr>)"
    "length lds = length (bijectors fl)"
    "wf_tensor zk" "nrows zk = nrows ?start" "ncols zk = ncols ?start"
    "\<forall>ld\<in>set lds. wf_tensor ld \<and> nrows ld = nrows ?start \<and> ncols ld = 1"
    by blast
  have ne: "lds \<noteq> []"
    using f(2) assms(7) by auto
  have c1: "\<forall>t\<in>set lds. ncols t = 1"
    using f(6) by simp
  have k: "zk = tab ?B ?D (elem zk)"
    using tensor_as_tab [OF f(3)] f(4,5) wz(2,3) by simp
  have e: "tab ?B ?D (\<lambda>i j. s_sub (spec_log_q_z0 (elem sigma i j) (?zf i j) (elem mu i j))
                               (spec_log_p_zk (elem zk i j)))
         = tab ?B ?D (\<lambda>i j. s_sub (spec_log_q_z0 (elem sigma i j) (elem ?start i j) (elem mu i j))
                               (spec_log_p_zk (elem zk i j)))"
    unfolding z0 by (rule tab_cong) (simp add: elem_tab)
  have tail:
   "bindE (t_mul (t_map (s_mul (Finite (- 0.5))) (tab ?B ?D (elem zk))) (tab ?B ?D (elem zk))) (\<lambda>log_p_zk.
    bindE (t_sub (tab ?B ?D ?zf) (tab ?B ?D (elem mu))) (\<lambda>d.
    bindE (t_mul d d) (\<lambda>dd.
    bindE (t_mul dd (t_map s_recip (tab ?B ?D (elem sigma)))) (\<lambda>q1.
    bindE (t_add (t_map s_log (tab ?B ?D (elem sigma))) q1) (\<lambda>q2.
    let log_q_z0 = t_map (s_mul (Finite (- 0.5))) q2
    in bindE (t_sub log_q_z0 log_p_zk) (\<lambda>diff.
       let logs = t_sum diff
       in bindE (cat lds) (\<lambda>ladj.
          let logs' = s_sub logs (t_sum ladj)
          in Inr (tab ?B ?D (elem zk), s_div logs' (Finite (real (nrows x)))))))))))
    = Inr (tab ?B ?D (elem zk),
           s_div (spec_logs mu sigma ?start zk lds) (Finite (real (nrows x))))"
    unfolding latent_tail_tab [OF ne c1] e spec_logs_def ..
  have "VAENormalizingFlow_latent fl x (mu, sigma) eps
      = (bindE (t_mul (t_map (s_mul (Finite (- 0.5))) zk) zk) (\<lambda>log_p_zk.
         bindE (t_sub ?start mu) (\<lambda>d.
         bindE (t_mul d d) (\<lambda>dd.
         bindE (t_mul dd (t_map s_recip sigma)) (\<lambda>q1.
         bindE (t_add (t_map s_log sigma) q1) (\<lambda>q2.
         let log_q_z0 = t_map (s_mul (Finite (- 0.5))) q2
         in bindE (t_sub log_q_z0 log_p_zk) (\<lambda>diff.
            let logs = t_sum diff
            in bindE (cat lds) (\<lambda>ladj.
               let logs' = s_sub logs (t_sum ladj)
               in Inr (zk, s_div logs' (Finite (real (nrows x))))))))))), fl\<lparr>log_det := lds\<rparr>)"
    unfolding VAENormalizingFlow_latent_def Let_def prod.case draw sum.case f(1) ..
  also have "\<dots> = (Inr (zk, s_div (spec_logs mu sigma ?start zk lds) (Finite (real (nrows x)))),
                   fl\<lparr>log_det := lds\<rparr>)"
    using tail m sg k z0 by simp
  finally show ?thesis
    using f(1) by blast
qed

lemma VAENormalizingFlow_latent_no_flow:
  assumes "wf_tensor mu" "wf_tensor sigma" "nrows sigma = nrows mu" "ncols sigma = ncols mu"
    "nrows x = nrows mu" "bijectors fl = []"
  shows "VAENormalizingFlow_latent fl x (mu, sigma) eps = (Inl EmptyCat, fl\<lparr>log_det := []\<rparr>)"
proof -
  let ?B = "nrows mu" and ?D = "ncols mu"
  let ?zf = "\<lambda>i j. s_add (s_mul (elem sigma i j) (Finite (eps i j))) (elem mu i j)"
  have m: "mu = tab ?B ?D (elem mu)"
    using tensor_as_tab [OF assms(1)] .
  have sg: "sigma = tab ?B ?D (elem sigma)"
    using tensor_as_tab [OF assms(2)] assms(3,4) by simp
  have "bindE (Normal_sample ?D ?D ?B eps)
          (\<lambda>e. bindE (t_mul (tab ?B ?D (elem sigma)) e) (\<lambda>se. t_add se (tab ?B ?D (elem mu))))
          = Inr (tab ?B ?D ?zf)"
    by (rule reparam_tab)
  then have draw: "bindE (Normal_sample (ncols mu) (ncols sigma) (nrows x) eps)
          (\<lambda>e. bindE (t_mul sigma e) (\<lambda>se. t_add se mu)) = Inr (tab ?B ?D ?zf)"
    using m sg assms(4,5) by simp
  have f: "NormalizingFlow_forward fl (tab ?B ?D ?zf) = (Inr (tab ?B ?D ?zf, []), fl\<lparr>log_det := []\<rparr>)"
    using assms(6) by (simp add: NormalizingFlow_forward_def)
  have "bindE (t_mul (t_map (s_mul (Finite (- 0.5))) (tab ?B ?D ?zf)) (tab ?B ?D ?zf)) (\<lambda>log_p_zk.
         bindE (t_sub (tab ?B ?D ?zf) (tab ?B ?D (elem mu))) (\<lambda>d.
         bindE (t_mul d d) (\<lambda>dd.
         bindE (t_mul dd (t_map s_recip (tab ?B ?D (elem sigma)))) (\<lambda>q1.
         bindE (t_add (t_map s_log (tab ?B ?D (elem sigma))) q1) (\<lambda>q2.
         let log_q_z0 = t_map (s_mul (Finite (- 0.5))) q2
         in bindE (t_sub log_q_z0 log_p_zk) (\<lambda>diff.
            let logs = t_sum diff
            in bindE (cat []) (\<lambda>ladj.
               let logs' = s_sub logs (t_sum ladj)
               in Inr (tab ?B ?D ?zf, s_div logs' (Finite (real (nrows x))))))))))) = Inl EmptyCat"
    by (simp add: t_mul_def t_sub_def t_add_def t_map_tab t_binop_tab Let_def cat_def)
  then have "bindE (t_mul (t_map (s_mul (Finite (- 0.5))) (tab ?B ?D ?zf)) (tab ?B ?D ?zf)) (\<lambda>log_p_zk.
         bindE (t_sub (tab ?B ?D ?zf) mu) (\<lambda>d.
         bindE (t_mul d d) (\<lambda>dd.
         bindE (t_mul dd (t_map s_recip sigma)) (\<lambda>q1.
         bindE (t_add (t_map s_log sigma) q1) (\<lambda>q2.
         let log_q_z0 = t_map (s_mul (Finite (- 0.5))) q2
         in bindE (t_sub log_q_z0 log_p_zk) (\<lambda>diff.
            let logs = t_sum diff
            in bindE (cat []) (\<lambda>ladj.
               let logs' = s_sub logs (t_sum ladj)
               in Inr (tab ?B ?D ?zf, s_div logs' (Finite (real (nrows x))))))))))) = Inl EmptyCat"
    using m sg by simp
  then show ?thesis
    unfolding VAENormalizingFlow_latent_def Let_def prod.case draw sum.case f by simp
qed

section \<open>A numeric bound\<close>

lemma exp_lower_bound: "2 + 1 / 10 ^ 9 < exp (0.6932 :: real)"
proof -
  obtain t :: real where t: "exp (0.6932 :: real) = (\<Sum>m<8. (0.6932 ^ m) / fact m) + (exp t / fact 8) * 0.6932 ^ 8"
    using Maclaurin_exp_le [of "0.6932" 8] by blast
  have "0 \<le> (exp t / fact 8) * (0.6932 :: real) ^ 8" by simp
  moreover have "2 + 1 / 10 ^ 9 < (\<Sum>m<8. ((0.6932 :: real) ^ m) / fact m)"
    by (simp add: eval_nat_numeral lessThan_Suc fact_numeral)
  ultimately show ?thesis using t by linarith
qed

lemma exp_upper_bound: "exp (0.6930 :: real) < 2 + 1 / 10 ^ 9"
proof -
  obtain t :: real where t: "exp (- 0.6930 :: real) = (\<Sum>m<8. ((- 0.6930) ^ m) / fact m) + (exp t / fact 8) * (- 0.6930) ^ 8"
    using Maclaurin_exp_le [of "- 0.6930" 8] by blast
  have "0 \<le> (exp t / fact 8) * (- 0.6930 :: real) ^ 8" by simp
  moreover have "1 / (2 + 1 / 10 ^ 9) < (\<Sum>m<8. ((- 0.6930 :: real) ^ m) / fact m)"
    by (simp add: eval_nat_numeral lessThan_Suc fact_numeral)
  ultimately have "1 / (2 + 1 / 10 ^ 9) < exp (- 0.6930 :: real)" using t by linarith
  then have "1 / exp (- 0.6930 :: real) < 2 + 1 / 10 ^ 9"
    by (simp add: field_simps)
  then show ?thesis by (simp add: exp_minus field_simps)
qed

lemma ln_guarded_two_approx: "\<bar>ln (2 + 1 / 10 ^ 9) - 0.6931\<bar> < (0.0001 :: real)"
proof -
  have "ln (2 + 1 / 10 ^ 9) < (0.6932 :: real)"
  proof -
    have "ln (2 + 1 / 10 ^ 9) < ln (exp (0.6932 :: real))"
      using exp_lower_bound by (subst ln_less_cancel_iff) simp_all
    then show ?thesis by simp
  qed
  moreover have "(0.6930 :: real) < ln (2 + 1 / 10 ^ 9)"
  proof -
    have "ln (exp (0.6930 :: real)) < ln (2 + 1 / 10 ^ 9)"
      using exp_upper_bound by (subst ln_less_cancel_iff) simp_all
    then show ?thesis by simp
  qed
  ultimately show ?thesis by linarith
qed

section \<open>The planar flow\<close>

text \<open>
  C7: for an input batch \<open>z\<close> of shape \<open>(B, D)\<close> and planar-flow parameters \<open>w\<close>, \<open>u\<close> of
  length \<open>D\<close> and \<open>b\<close>, the forward transform \<open>PlanarFlow._call\<close> returns the batch of
  the same shape whose every row is \<open>z + u * tanh(w\<cdot>z + b)\<close>: the hyperbolic tangent of
  the row's affine image, scaled elementwise by \<open>u\<close> and added to the row.
\<close>

theorem PlanarFlow_call_formula:
  assumes "wf_tensor z" and "ncols z = length (weight f)" and "length (scale f) = length (weight f)"
  shows "PlanarFlow_call f z =
           Inr (Tensor (ncols z) (map (spec_planar_forward (weight f) (scale f) (bias f)) (rows z)))"
  using assms(2,3) by (rule PlanarFlow_call_rows)

theorem PlanarFlow_call_formula_witness:
  "wf_tensor (Tensor 2 [[Finite 1, Finite 2]])
   \<and> ncols (Tensor 2 [[Finite 1, Finite 2]])
       = length (weight \<lparr>weight = [Finite 1, Finite 0], scale = [Finite 3, Finite 4], bias = Finite 0\<rparr>)
   \<and> PlanarFlow_call \<lparr>weight = [Finite 1, Finite 0], scale = [Finite 3, Finite 4], bias = Finite 0\<rparr>
         (Tensor 2 [[Finite 1, Finite 2]])
       = Inr (Tensor 2 [[Finite (1 + 3 * tanh 1), Finite (2 + 4 * tanh 1)]])"
proof -
  have w: "wf_tensor (Tensor 2 [[Finite 1, Finite 2]])"
    by (simp add: wf_tensor_def)
  show ?thesis
    using w PlanarFlow_call_formula [OF w,
        of "\<lparr>weight = [Finite 1, Finite 0], scale = [Finite 3, Finite 4], bias = Finite 0\<rparr>"]
    by (simp add: spec_planar_forward_def dot_def s_add_def s_mul_def s_tanh_def)
qed

text \<open>
  C2: for an input batch \<open>z\<close> of shape \<open>(B, D)\<close> and planar-flow parameters \<open>w\<close>, \<open>u\<close> of
  length \<open>D\<close> and \<open>b\<close>, \<open>PlanarFlow.log_abs_det_jacobian\<close> returns the tensor of shape
  \<open>(B, 1)\<close> that holds, for each sample, \<open>log(|1 + psi\<cdot>u| + 1e-9)\<close> with
  \<open>psi = (1 - tanh(w\<cdot>z+b)^2) * w\<close>. In particular, for \<open>w = [1,0]\<close>, \<open>u = [1,0]\<close>, \<open>b = 0\<close>
  and \<open>z = [[0,0]]\<close> the result is \<open>log(2 + 1e-9)\<close>, which lies within \<open>0.0001\<close> of
  \<open>0.6931\<close>, and the forward output is \<open>[[0,0]]\<close>.
\<close>

theorem PlanarFlow_log_abs_det_jacobian_formula:
  "(wf_tensor z \<and> ncols z = length (weight f) \<and> length (scale f) = length (weight f) \<longrightarrow>
      PlanarFlow_log_abs_det_jacobian f z =
        Inr (unsqueeze1 (map (spec_planar_log_det (weight f) (scale f) (bias f)) (rows z))))
   \<and> PlanarFlow_log_abs_det_jacobian
         \<lparr>weight = [Finite 1, Finite 0], scale = [Finite 1, Finite 0], bias = Finite 0\<rparr>
         (Tensor 2 [[Finite 0, Finite 0]])
       = Inr (Tensor 1 [[Finite (ln (2 + 1 / 10 ^ 9))]])
   \<and> \<bar>ln (2 + 1 / 10 ^ 9) - 0.6931\<bar> < (0.0001 :: real)
   \<and> PlanarFlow_call
         \<lparr>weight = [Finite 1, Finite 0], scale = [Finite 1, Finite 0], bias = Finite 0\<rparr>
         (Tensor 2 [[Finite 0, Finite 0]])
       = Inr (Tensor 2 [[Finite 0, Finite 0]])"
proof -
  let ?f = "\<lparr>weight = [Finite 1, Finite 0], scale = [Finite 1, Finite 0], bias = Finite 0\<rparr>"
  let ?z = "Tensor 2 [[Finite 0, Finite 0]]"
  have d: "ncols ?z = length (weight ?f)" "length (scale ?f) = length (weight ?f)"
    by simp_all
  have "PlanarFlow_log_abs_det_jacobian ?f ?z = Inr (Tensor 1 [[Finite (ln (2 + 1 / 10 ^ 9))]])"
    unfolding PlanarFlow_log_abs_det_jacobian_rows [OF d]
    by (simp add: unsqueeze1_def spec_planar_log_det_def dot_def s_add_def s_mul_def s_sub_def
        s_pow_def s_tanh_def s_abs_def eps_guard_def)
  moreover have "PlanarFlow_call ?f ?z = Inr ?z"
    unfolding PlanarFlow_call_rows [OF d]
    by (simp add: spec_planar_forward_def dot_def s_add_def s_mul_def s_tanh_def)
  ultimately show ?thesis
    using ln_guarded_two_approx by (simp add: PlanarFlow_log_abs_det_jacobian_rows)
qed

theorem PlanarFlow_log_abs_det_jacobian_formula_witness:
  "wf_tensor (Tensor 2 [[Finite 0, Finite 5], [Finite 0, Finite 7]])
   \<and> ncols (Tensor 2 [[Finite 0, Finite 5], [Finite 0, Finite 7]])
       = length (weight \<lparr>weight = [Finite 2, Finite 0], scale = [Finite 3, Finite 4], bias = Finite 0\<rparr>)
   \<and> PlanarFlow_log_abs_det_jacobian
         \<lparr>weight = [Finite 2, Finite 0], scale = [Finite 3, Finite 4], bias = Finite 0\<rparr>
         (Tensor 2 [[Finite 0, Finite 5], [Finite 0, Finite 7]])
       = Inr (Tensor 1 [[Finite (ln (7 + 1 / 10 ^ 9))], [Finite (ln (7 + 1 / 10 ^ 9))]])"
proof -
  have w: "wf_tensor (Tensor 2 [[Finite 0, Finite 5], [Finite 0, Finite 7]])"
    by (simp add: wf_tensor_def)
  show ?thesis
    using w PlanarFlow_log_abs_det_jacobian_formula
      [of "Tensor 2 [[Finite 0, Finite 5], [Finite 0, Finite 7]]"
          "\<lparr>weight = [Finite 2, Finite 0], scale = [Finite 3, Finite 4], bias = Finite 0\<rparr>"]
    by (simp add: unsqueeze1_def spec_planar_log_det_def dot_def s_add_def s_mul_def s_sub_def
        s_pow_def s_tanh_def s_abs_def eps_guard_def)
qed

section \<open>The radial flow\<close>

text \<open>
  C3: for an input batch \<open>z\<close> of shape \<open>(B, D)\<close> and radial-flow parameters \<open>z0\<close> of length
  \<open>D\<close>, \<open>alpha\<close>, \<open>beta\<close> and \<open>dim\<close>, \<open>RadialFlow.log_abs_det_jacobian\<close> returns the
  tensor of shape \<open>(B, 1)\<close> that holds, for each sample, \<open>log(|det| + 1e-9)\<close> where
  \<open>r = ||z - z0||\<close>, \<open>h = 1/(alpha + r)\<close>, \<open>hp = -1/(alpha+r)^2\<close>, \<open>bh = beta*h\<close> and
  \<open>det = ((1+bh)^dim - 1) * (1 + bh + beta*hp*r)\<close>. Where \<open>alpha + r\<close> is zero both
  sides are the non-finite value.
\<close>

theorem RadialFlow_log_abs_det_jacobian_formula:
  assumes "wf_tensor z" and "ncols z = length (z0 f)"
  shows "RadialFlow_log_abs_det_jacobian f z =
           Inr (unsqueeze1 (map (spec_radial_log_det (z0 f) (alpha f) (beta f) (dim f)) (rows z)))"
  using assms(2) by (rule RadialFlow_log_abs_det_jacobian_rows)

theorem RadialFlow_log_abs_det_jacobian_formula_witness:
  "wf_tensor (Tensor 2 [[Finite 0, Finite 0]])
   \<and> ncols (Tensor 2 [[Finite 0, Finite 0]])
       = length (z0 \<lparr>z0 = [Finite 0, Finite 0], alpha = Finite 1, beta = Finite 1, dim = 2\<rparr>)
   \<and> RadialFlow_log_abs_det_jacobian
         \<lparr>z0 = [Finite 0, Finite 0], alpha = Finite 1, beta = Finite 1, dim = 2\<rparr>
         (Tensor 2 [[Finite 0, Finite 0]])
       = Inr (Tensor 1 [[Finite (ln (6 + 1 / 10 ^ 9))]])"
proof -
  have w: "wf_tensor (Tensor 2 [[Finite 0, Finite 0]])"
    by (simp add: wf_tensor_def)
  show ?thesis
    using w RadialFlow_log_abs_det_jacobian_formula [OF w,
        of "\<lparr>z0 = [Finite 0, Finite 0], alpha = Finite 1, beta = Finite 1, dim = 2\<rparr>"]
    by (simp add: unsqueeze1_def spec_radial_log_det_def spec_radial_r_def s_add_def s_mul_def
        s_sub_def s_pow_def s_neg_def s_abs_def eps_guard_def)
qed




section \<open>The flow sequence\<close>

text \<open>
  C1: for an input batch \<open>z\<close> of shape \<open>(B, D)\<close> and any number \<open>N\<close> of flows built for
  width \<open>D\<close>, \<open>NormalizingFlow.forward\<close> returns a batch and a sequence of
  log-determinants such that: the sequence has exactly \<open>N\<close> entries; its entry \<open>i\<close> is
  \<open>log_abs_det_jacobian\<close> of flow \<open>i\<close> applied to the batch as it is before flow \<open>i\<close>
  transforms it, that is, the input pushed through the first \<open>i\<close> flows in list order;
  the returned batch is the input pushed through all flows in list order; and the
  returned batch has the shape \<open>(B, D)\<close> of the input.
\<close>

theorem NormalizingFlow_forward_trace:
  assumes "wf_tensor z" and "\<forall>b\<in>set (bijectors s). has_dim b (ncols z)"
  shows "\<exists>zk lds s'. NormalizingFlow_forward s z = (Inr (zk, lds), s')
           \<and> length lds = length (bijectors s)
           \<and> (\<forall>i<length (bijectors s). \<exists>zi. apply_flows (take i (bijectors s)) z = Inr zi
                  \<and> flow_log_abs_det_jacobian (bijectors s ! i) zi = Inr (lds ! i))
           \<and> apply_flows (bijectors s) z = Inr zk
           \<and> wf_tensor zk \<and> nrows zk = nrows z \<and> ncols zk = ncols z"
  using NormalizingFlow_forward_ok [OF assms] by blast

theorem NormalizingFlow_forward_trace_witness:
  "wf_tensor fixture_batch
   \<and> has_dim (Planar fixture_planar) (ncols fixture_batch)
   \<and> has_dim (Radial fixture_radial) (ncols fixture_batch)
   \<and> fst (NormalizingFlow_forward fixture_sequence fixture_batch)
       = Inr (fixture_batch,
              [Tensor 1 [[Finite (ln (2 + 1 / 10 ^ 9))]], Tensor 1 [[Finite (ln (6 + 1 / 10 ^ 9))]]])
   \<and> length (snd (projr (fst (NormalizingFlow_forward fixture_sequence fixture_batch))))
       = length (bijectors fixture_sequence)"
proof -
  have h: "\<forall>b\<in>set (bijectors fixture_sequence). has_dim b (ncols fixture_batch)"
    by (simp add: fixture_sequence_def fixture_planar_def fixture_radial_def fixture_batch_def)
  obtain zk lds s' where r:
    "NormalizingFlow_forward fixture_sequence fixture_batch = (Inr (zk, lds), s')"
    "length lds = length (bijectors fixture_sequence)"
    using NormalizingFlow_forward_trace [OF fixture_batch_wf(1) h] by blast
  have "length (snd (projr (fst (NormalizingFlow_forward fixture_sequence fixture_batch))))
          = length (bijectors fixture_sequence)"
    using r by simp
  moreover have "has_dim (Planar fixture_planar) (ncols fixture_batch)"
    "has_dim (Radial fixture_radial) (ncols fixture_batch)"
    using h by (simp_all add: fixture_sequence_def)
  ultimately show ?thesis
    using fixture_batch_wf(1) by (simp add: fixture_forward)
qed

text \<open>
  C9, as the claim states it, fails: \<open>forward\<close> assigns the attribute \<open>self.log_det\<close>, so
  the object after the call differs from the object before it. On the fixture sequence,
  whose \<open>log_det\<close> is empty before the call, the call leaves the two recorded
  log-determinants in the object.
\<close>

theorem NormalizingFlow_forward_updates_log_det:
  "log_det fixture_sequence = []
   \<and> log_det (snd (NormalizingFlow_forward fixture_sequence fixture_batch))
       = [Tensor 1 [[Finite (ln (2 + 1 / 10 ^ 9))]], Tensor 1 [[Finite (ln (6 + 1 / 10 ^ 9))]]]
   \<and> snd (NormalizingFlow_forward fixture_sequence fixture_batch) \<noteq> fixture_sequence"
proof -
  have "log_det (snd (NormalizingFlow_forward fixture_sequence fixture_batch)) \<noteq> log_det fixture_sequence"
    by (simp add: fixture_forward) (simp add: fixture_sequence_def)
  then have "snd (NormalizingFlow_forward fixture_sequence fixture_batch) \<noteq> fixture_sequence"
    by auto
  then show ?thesis
    by (simp add: fixture_forward) (simp add: fixture_sequence_def)
qed

text \<open>
  C9, amended: \<open>forward\<close> changes the attribute \<open>log_det\<close> of the object and nothing else.
  The list is created anew by each call: the call's results do not depend on the previous
  content of \<open>log_det\<close>; after the call the attribute holds at most one entry per flow
  and, when the call returns, exactly the returned sequence; a call after an earlier call
  behaves as it does on the object before that call, so nothing accumulates across calls.
\<close>

theorem NormalizingFlow_forward_log_det_fresh:
  "NormalizingFlow_forward (s\<lparr>log_det := old\<rparr>) z = NormalizingFlow_forward s z
   \<and> snd (NormalizingFlow_forward s z) = s\<lparr>log_det := log_det (snd (NormalizingFlow_forward s z))\<rparr>
   \<and> length (log_det (snd (NormalizingFlow_forward s z))) \<le> length (bijectors s)
   \<and> (\<forall>zk lds. fst (NormalizingFlow_forward s z) = Inr (zk, lds)
          \<longrightarrow> log_det (snd (NormalizingFlow_forward s z)) = lds)
   \<and> NormalizingFlow_forward (snd (NormalizingFlow_forward s z)) z' = NormalizingFlow_forward s z'"
proof -
  obtain lds where l: "snd (NormalizingFlow_forward s z) = s\<lparr>log_det := lds\<rparr>"
    "length lds \<le> length (bijectors s)"
    "\<forall>zk l. fst (NormalizingFlow_forward s z) = Inr (zk, l) \<longrightarrow> l = lds"
    using NormalizingFlow_forward_frame [of s z] by blast
  show ?thesis
    unfolding l(1) using l(2,3) by (simp add: NormalizingFlow_forward_fresh)
qed

theorem NormalizingFlow_forward_log_det_fresh_witness:
  "fst (NormalizingFlow_forward fixture_sequence fixture_batch)
     = Inr (fixture_batch,
            [Tensor 1 [[Finite (ln (2 + 1 / 10 ^ 9))]], Tensor 1 [[Finite (ln (6 + 1 / 10 ^ 9))]]])
   \<and> log_det (snd (NormalizingFlow_forward fixture_sequence fixture_batch))
       = [Tensor 1 [[Finite (ln (2 + 1 / 10 ^ 9))]], Tensor 1 [[Finite (ln (6 + 1 / 10 ^ 9))]]]
   \<and> NormalizingFlow_forward (snd (NormalizingFlow_forward fixture_sequence fixture_batch)) fixture_batch
       = NormalizingFlow_forward fixture_sequence fixture_batch"
  using NormalizingFlow_forward_log_det_fresh
    [where s = fixture_sequence and old = "[]" and z = fixture_batch and z' = fixture_batch]
  by (simp add: fixture_forward)

section \<open>Construction of flows and of the flow sequence\<close>

text \<open>
  C6, on the code: for \<open>blocks = [PlanarFlow]\<close>, \<open>flow_length = 3\<close> and \<open>dim = 4\<close> the two loops
  of the constructor build the list of three planar flows, in the order of the claim, but
  the constructor then raises \<open>AttributeError\<close> in \<open>distrib.TransformedDistribution\<close> and
  yields no flow sequence.
\<close>

theorem NormalizingFlow_init_raises:
  "map flow_class (fst (projr (init_repeat (nat 3) [PlanarFlowClass] 4 [] (const_rng 0))))
     = [PlanarFlowClass, PlanarFlowClass, PlanarFlowClass]
   \<and> NormalizingFlow_init 4 [PlanarFlowClass] 3 () (const_rng 0) = Inl AttributeError"
proof -
  obtain fs g' where fs: "init_repeat (nat 3) [PlanarFlowClass] 4 [] (const_rng 0) = Inr ([] @ fs, g')"
    "map flow_class fs = concat (replicate (nat 3) [PlanarFlowClass])"
    using init_repeat_ok [of 4 "nat 3" "[PlanarFlowClass]" "[]" "const_rng 0"] by auto
  have "map flow_class (fst (projr (init_repeat (nat 3) [PlanarFlowClass] 4 [] (const_rng 0))))
          = [PlanarFlowClass, PlanarFlowClass, PlanarFlowClass]"
    unfolding fs(1) using fs(2) by (simp add: eval_nat_numeral)
  moreover have "NormalizingFlow_init 4 [PlanarFlowClass] 3 () (const_rng 0) = Inl AttributeError"
    by (rule NormalizingFlow_init_some_flow) simp_all
  ultimately show ?thesis by simp
qed

text \<open>
  C10, as the claim states it, fails at \<open>dim = 0\<close>: the constructors have no check of the
  dimension, the allocation of a tensor of shape \<open>(1, 0)\<close> succeeds, and the result is a
  flow with empty vector parameters that transforms batches of width zero.
\<close>

theorem flow_init_accepts_zero_dim:
  "map_sum id fst (PlanarFlow_init 0 (const_rng 0))
     = Inr \<lparr>weight = [], scale = [], bias = Finite (- 0.01)\<rparr>
   \<and> map_sum id fst (RadialFlow_init 0 (const_rng 0))
     = Inr \<lparr>z0 = [], alpha = Finite (- 0.01), beta = Finite (- 0.01), dim = 0\<rparr>
   \<and> PlanarFlow_call \<lparr>weight = [], scale = [], bias = Finite (- 0.01)\<rparr> (Tensor 0 [[]])
     = Inr (Tensor 0 [[]])"
proof -
  have "PlanarFlow_call \<lparr>weight = [], scale = [], bias = Finite (- 0.01)\<rparr> (Tensor 0 [[]])
     = Inr (Tensor 0 [[]])"
    by (subst PlanarFlow_call_rows) (simp_all add: spec_planar_forward_def)
  then show ?thesis
    by (simp add: PlanarFlow_init_def RadialFlow_init_def alloc_def uniform_def const_rng_def)
qed

text \<open>
  C10, amended: for every \<open>dim < 0\<close> the construction of a planar or radial flow fails at
  construction time, because the tensor allocation refuses the negative size; for
  \<open>dim = 0\<close> the construction succeeds and yields a flow whose vector parameters are
  empty.
\<close>

theorem flow_init_dim:
  "(d < 0 \<longrightarrow> PlanarFlow_init d g = Inl NegativeDimension
              \<and> RadialFlow_init d g = Inl NegativeDimension)
   \<and> (\<exists>f g'. PlanarFlow_init 0 g = Inr (f, g') \<and> weight f = [] \<and> scale f = [])
   \<and> (\<exists>f g'. RadialFlow_init 0 g = Inr (f, g') \<and> z0 f = [] \<and> dim f = 0)"
  by (simp add: PlanarFlow_init_def RadialFlow_init_def alloc_def uniform_def)

theorem flow_init_dim_witness:
  "(- 1 :: int) < 0
   \<and> PlanarFlow_init (- 1) (const_rng 0) = Inl NegativeDimension
   \<and> RadialFlow_init (- 1) (const_rng 0) = Inl NegativeDimension"
  using flow_init_dim [of "- 1" "const_rng 0"] by simp

section \<open>The latent step\<close>

text \<open>
  C5: for \<open>mu\<close> and \<open>sigma\<close> of one shape \<open>(B, D)\<close>, an input of batch size \<open>B\<close> and any
  realisation of the draw, plain-mode \<open>VAE.latent\<close> returns the reparameterised sample
  \<open>sigma * eps + mu\<close> together with
  \<open>kl = -0.5 * sum(1 + sigma - mu^2 - exp(sigma)) / batch_size\<close>, which does not depend on
  the draw. In particular, for \<open>mu = 0\<close>, \<open>sigma = 0\<close>, batch size one and dimension one the
  returned \<open>kl\<close> is \<open>0\<close>.
\<close>

theorem VAE_latent_kl:
  "(wf_tensor mu \<and> wf_tensor sigma \<and> nrows sigma = nrows mu \<and> ncols sigma = ncols mu
      \<and> nrows x = nrows mu \<longrightarrow>
      VAE_latent x (mu, sigma) eps = Inr (spec_reparam mu sigma eps, spec_kl mu sigma (nrows x)))
   \<and> VAE_latent (Tensor c [xr]) (Tensor 1 [[Finite 0]], Tensor 1 [[Finite 0]]) eps
       = Inr (Tensor 1 [[Finite 0]], Finite 0)"
proof -
  let ?o = "Tensor 1 [[Finite 0]]"
  have w: "wf_tensor ?o" "nrows ?o = 1" "nrows (Tensor c [xr]) = nrows ?o"
    by (simp_all add: wf_tensor_def nrows_def)
  have "VAE_latent (Tensor c [xr]) (?o, ?o) eps
          = Inr (spec_reparam ?o ?o eps, spec_kl ?o ?o (nrows (Tensor c [xr])))"
    using w by (intro VAE_latent_spec) simp_all
  moreover have "spec_reparam ?o ?o eps = ?o"
    by (simp add: spec_reparam_def tab_def elem_def nrows_def s_add_def s_mul_def)
  moreover have "spec_kl ?o ?o (nrows (Tensor c [xr])) = Finite 0"
    by (simp add: spec_kl_def tab_def elem_def nrows_def t_sum_def s_add_def s_sub_def s_mul_def
        s_pow_def s_exp_def)
  ultimately show ?thesis
    by (simp add: VAE_latent_spec)
qed

theorem VAE_latent_kl_witness:
  "wf_tensor (Tensor 1 [[Finite 1]]) \<and> wf_tensor (Tensor 1 [[Finite 0]])
   \<and> nrows (Tensor 1 [[Finite 0]]) = nrows (Tensor 1 [[Finite 1]])
   \<and> VAE_latent (Tensor 1 [[Finite 7]]) (Tensor 1 [[Finite 1]], Tensor 1 [[Finite 0]]) zero_draw
       = Inr (Tensor 1 [[Finite 1]], Finite (1 / 2))"
proof -
  have w: "wf_tensor (Tensor 1 [[Finite 1]])" "wf_tensor (Tensor 1 [[Finite 0]])"
    by (simp_all add: wf_tensor_def)
  show ?thesis
    using w VAE_latent_kl [of "Tensor 1 [[Finite 1]]" "Tensor 1 [[Finite 0]]" "Tensor 1 [[Finite 7]]" zero_draw]
    by (simp add: spec_reparam_def spec_kl_def tab_def elem_def nrows_def t_sum_def s_add_def
        s_sub_def s_mul_def s_pow_def s_exp_def zero_draw_def)
qed

text \<open>
  C4: for \<open>mu\<close> and \<open>sigma\<close> of one shape \<open>(B, D)\<close>, an input of batch size \<open>B\<close>, any
  realisation of the draw and a flow sequence of at least one flow built for width \<open>D\<close>,
  \<open>VAENormalizingFlow.latent\<close> returns the pair \<open>(zk, logs / batch_size)\<close>, where \<open>zk\<close> and
  the recorded log-determinants are what the flow sequence returns on
  \<open>z0 = sigma * eps + mu\<close>, and \<open>logs\<close> is the sum over all elements and samples of
  \<open>log_q_z0 - log_p_zk\<close>, with \<open>log_p_zk = -0.5 * zk^2\<close> and
  \<open>log_q_z0 = -0.5 * (log(sigma) + (z0-mu)^2 / sigma)\<close>, minus the sum of all recorded
  log-determinants.
\<close>

theorem VAENormalizingFlow_latent_free_energy:
  assumes "wf_tensor mu" and "wf_tensor sigma"
    and "nrows sigma = nrows mu" and "ncols sigma = ncols mu" and "nrows x = nrows mu"
    and "\<forall>b\<in>set (bijectors fl). has_dim b (ncols mu)" and "bijectors fl \<noteq> []"
  shows "\<exists>zk lds fl'.
           NormalizingFlow_forward fl (spec_reparam mu sigma eps) = (Inr (zk, lds), fl')
           \<and> VAENormalizingFlow_latent fl x (mu, sigma) eps
               = (Inr (zk, s_div (spec_logs mu sigma (spec_reparam mu sigma eps) zk lds)
                                 (Finite (real (nrows x)))), fl')"
  using VAENormalizingFlow_latent_spec [OF assms] by blast

theorem VAENormalizingFlow_latent_free_energy_witness:
  "wf_tensor fixture_batch \<and> wf_tensor fixture_sigma
   \<and> nrows fixture_sigma = nrows fixture_batch \<and> ncols fixture_sigma = ncols fixture_batch
   \<and> bijectors fixture_sequence \<noteq> []
   \<and> fst (VAENormalizingFlow_latent fixture_sequence fixture_batch (fixture_batch, fixture_sigma) zero_draw)
       = Inr (fixture_batch, Finite (- (ln (2 + 1 / 10 ^ 9) + ln (6 + 1 / 10 ^ 9))))"
proof -
  have w: "wf_tensor fixture_sigma" "nrows fixture_sigma = nrows fixture_batch"
    "ncols fixture_sigma = ncols fixture_batch"
    by (simp_all add: fixture_sigma_def fixture_batch_def wf_tensor_def nrows_def)
  have h: "\<forall>b\<in>set (bijectors fixture_sequence). has_dim b (ncols fixture_batch)"
    by (simp add: fixture_sequence_def fixture_planar_def fixture_radial_def fixture_batch_def)
  have n: "bijectors fixture_sequence \<noteq> []"
    by (simp add: fixture_sequence_def)
  have z: "spec_reparam fixture_batch fixture_sigma zero_draw = fixture_batch"
    by (simp add: spec_reparam_def fixture_batch_def fixture_sigma_def zero_draw_def tab_def elem_def
        nrows_def s_add_def s_mul_def eval_nat_numeral)
  obtain zk lds fl' where r:
    "NormalizingFlow_forward fixture_sequence (spec_reparam fixture_batch fixture_sigma zero_draw)
       = (Inr (zk, lds), fl')"
    "VAENormalizingFlow_latent fixture_sequence fixture_batch (fixture_batch, fixture_sigma) zero_draw
       = (Inr (zk, s_div (spec_logs fixture_batch fixture_sigma
                            (spec_reparam fixture_batch fixture_sigma zero_draw) zk lds)
                         (Finite (real (nrows fixture_batch)))), fl')"
    using VAENormalizingFlow_latent_free_energy
      [OF fixture_batch_wf(1) w(1) w(2) w(3) refl h n, of zero_draw] by blast
  have zk: "zk = fixture_batch"
    "lds = [Tensor 1 [[Finite (ln (2 + 1 / 10 ^ 9))]], Tensor 1 [[Finite (ln (6 + 1 / 10 ^ 9))]]]"
    using r(1) unfolding z fixture_forward by simp_all
  have "s_div (spec_logs fixture_batch fixture_sigma fixture_batch fixture_batch
                 [Tensor 1 [[Finite (ln (2 + 1 / 10 ^ 9))]], Tensor 1 [[Finite (ln (6 + 1 / 10 ^ 9))]]])
              (Finite (real (nrows fixture_batch)))
          = Finite (- (ln (2 + 1 / 10 ^ 9) + ln (6 + 1 / 10 ^ 9)))"
    by (simp add: spec_logs_def spec_log_q_z0_def spec_log_p_zk_def fixture_batch_def fixture_sigma_def
        tab_def elem_def nrows_def t_sum_def s_add_def s_sub_def s_mul_def s_pow_def eval_nat_numeral)
  then show ?thesis
    using w n fixture_batch_wf(1) unfolding r(2) z zk by simp
qed

end
